theory Spec2Isabelle
  imports Complex_Main "HOL-Library.Char_ord" "HOL-Library.List_Lexorder"
    "HOL-Library.Product_Lexorder"
begin

section \<open>Keystroke events\<close>

text \<open>
  One row of the keystrokes table, with the columns that
  \<^verbatim>\<open>keystroke_stress_analysis.py\<close> reads. \<open>pressed_at\<close> is the parsed timestamp
  in nanoseconds since the epoch (what \<^verbatim>\<open>astype(np.int64)\<close> gives); \<open>field_name\<close>
  is \<open>None\<close> where the cell is missing (NaN). Identifiers and key names are strings;
  a table with a missing cell in one of the other columns is outside the model.
  The field name is the one string whose characters the program looks at (it trims
  whitespace), so it is kept as Python has it: the list of its Unicode code points.
\<close>

record key_event =
  session_id :: string
  test_type :: string
  field_name :: "nat list option"
  event_type :: string
  key :: string
  pressed_at :: int

text \<open>The code points of a string written in ASCII.\<close>

definition code_points :: "string \<Rightarrow> nat list" where
  "code_points s = map of_char s"

text \<open>\<^verbatim>\<open>df['pressed_at'].astype(np.int64) // 10**6\<close>: floor division, as \<open>div\<close> on \<open>int\<close>.\<close>

definition pressed_at_ms :: "key_event \<Rightarrow> int" where
  "pressed_at_ms e = pressed_at e div 10 ^ 6"

text \<open>
  \<^verbatim>\<open>grp.sort_values('pressed_at').reset_index(drop=True)\<close>. The order pandas gives
  to rows with equal timestamps is not fixed by its documentation; the model takes the
  stable one. The pairing theorems below hold for every sequence, so for every tie order.
\<close>

definition sort_values_pressed_at :: "key_event list \<Rightarrow> key_event list" where
  "sort_values_pressed_at grp = sort_key pressed_at grp"

section \<open>Event pairing\<close>

subsection \<open>Key-hold durations\<close>

text \<open>
  The inner \<^verbatim>\<open>while j < len(grp)\<close> loop of the hold-duration scan, started at \<open>j\<close>
  for a keydown of key \<open>k\<close> pressed at \<open>t_down\<close>. The result is what the loop appends
  to \<^verbatim>\<open>khd_list\<close>: one duration or nothing.
\<close>

function khd_scan :: "key_event list \<Rightarrow> string \<Rightarrow> int \<Rightarrow> nat \<Rightarrow> int list" where
  "khd_scan grp k t_down j =
     (if j < length grp then
        if event_type (grp ! j) = ''keyup'' \<and> key (grp ! j) = k then
          (let khd_ms = pressed_at_ms (grp ! j) - t_down
           in if 0 < khd_ms \<and> khd_ms < 2000 then [khd_ms] else [])
        else if event_type (grp ! j) = ''keydown'' \<and> key (grp ! j) = k then []
        else khd_scan grp k t_down (j + 1)
      else [])"
  by pat_completeness auto
termination
  by (relation "measure (\<lambda>(grp, k, t_down, j). length grp - j)") auto

declare khd_scan.simps [simp del]

text \<open>
  The outer \<^verbatim>\<open>while i < len(grp) - 1\<close> loop from index \<open>i\<close>; the result is the list of
  \<open>(key, khd_ms)\<close> pairs appended to \<^verbatim>\<open>key_list\<close> and \<^verbatim>\<open>khd_list\<close>, in order.
\<close>

function khd_loop :: "key_event list \<Rightarrow> nat \<Rightarrow> (string \<times> int) list" where
  "khd_loop grp i =
     (if i + 1 < length grp then
        (if event_type (grp ! i) = ''keydown'' then
           map (\<lambda>khd_ms. (key (grp ! i), khd_ms))
             (khd_scan grp (key (grp ! i)) (pressed_at_ms (grp ! i)) (i + 1))
         else []) @ khd_loop grp (i + 1)
      else [])"
  by pat_completeness auto
termination
  by (relation "measure (\<lambda>(grp, i). length grp - i)") auto

declare khd_loop.simps [simp del]

definition khd_pairs :: "key_event list \<Rightarrow> (string \<times> int) list" where
  "khd_pairs grp = khd_loop grp 0"

definition khd_vals :: "key_event list \<Rightarrow> int list" where
  "khd_vals grp = map snd (khd_pairs grp)"

subsection \<open>Inter-key intervals\<close>

text \<open>
  The \<^verbatim>\<open>for i in range(len(grp))\<close> loop of the interval scan from index \<open>i\<close>, with the
  variable \<^verbatim>\<open>last_keyup_time\<close> as an option (\<open>None\<close> is Python's \<^verbatim>\<open>None\<close>); the result
  is the list of intervals appended, in order.
\<close>

function iki_loop :: "key_event list \<Rightarrow> nat \<Rightarrow> int option \<Rightarrow> int list" where
  "iki_loop grp i last_keyup_time =
     (if i < length grp then
        if event_type (grp ! i) = ''keyup'' then
          iki_loop grp (i + 1) (Some (pressed_at_ms (grp ! i)))
        else if event_type (grp ! i) = ''keydown'' \<and> last_keyup_time \<noteq> None then
          (let iki_ms = pressed_at_ms (grp ! i) - the last_keyup_time
           in (if 0 < iki_ms \<and> iki_ms < 5000 then [iki_ms] else [])
              @ iki_loop grp (i + 1) None)
        else iki_loop grp (i + 1) last_keyup_time
      else [])"
  by pat_completeness auto
termination
  by (relation "measure (\<lambda>(grp, i, l). length grp - i)") auto

declare iki_loop.simps [simp del]

definition iki_vals :: "key_event list \<Rightarrow> int list" where
  "iki_vals grp = iki_loop grp 0 None"

section \<open>Aggregation\<close>

text \<open>
  Floating-point values are modelled as reals, and NaN (an absent statistic) as \<open>None\<close>.
\<close>

definition mean :: "int list \<Rightarrow> real" where
  "mean xs = real_of_int (sum_list xs) / real (length xs)"

definition sum_sq_dev :: "int list \<Rightarrow> real" where
  "sum_sq_dev xs = (\<Sum>x\<leftarrow>xs. (real_of_int x - mean xs)\<^sup>2)"

text \<open>
  \<^verbatim>\<open>Series.std()\<close> of pandas: \<open>ddof = 1\<close>, NaN when there are fewer than two samples.
\<close>

definition pandas_std :: "int list \<Rightarrow> real option" where
  "pandas_std xs =
     (if length xs < 2 then None else Some (sqrt (sum_sq_dev xs / real (length xs - 1))))"

text \<open>
  \<^verbatim>\<open>np.std\<close> of numpy: \<open>ddof = 0\<close>. The source calls it on a non-empty list only; on
  an empty one numpy returns NaN.
\<close>

definition numpy_std :: "int list \<Rightarrow> real option" where
  "numpy_std xs = (if xs = [] then None else Some (sqrt (sum_sq_dev xs / real (length xs))))"

text \<open>Division of a possibly-NaN standard deviation by a mean: NaN stays NaN.\<close>

definition nan_div :: "real option \<Rightarrow> real \<Rightarrow> real option" where
  "nan_div s m = (case s of None \<Rightarrow> None | Some x \<Rightarrow> Some (x / m))"

record metrics_row =
  row_session_id :: string
  row_test_type :: string
  n_events :: int
  n_keydowns :: int
  duration_sec :: real
  mean_khd_ms :: "real option"
  sd_khd_ms :: "real option"
  cv_khd :: "real option"
  mean_iki_ms :: "real option"
  sd_iki_ms :: "real option"
  cv_iki :: "real option"
  pause_count_200ms :: int
  pause_count_500ms :: int
  backspace_count :: int
  backspace_rate :: real
  cpm :: "real option"

text \<open>\<^verbatim>\<open>times.max() - times.min() if len(times) >= 2 else 0\<close>\<close>

definition duration_ms :: "key_event list \<Rightarrow> int" where
  "duration_ms grp =
     (if length grp \<ge> 2 then Max (set (map pressed_at_ms grp)) - Min (set (map pressed_at_ms grp))
      else 0)"

definition count_keydowns :: "key_event list \<Rightarrow> int" where
  "count_keydowns grp = int (length (filter (\<lambda>e. event_type e = ''keydown'') grp))"

definition count_backspace :: "key_event list \<Rightarrow> int" where
  "count_backspace grp =
     int (length (filter (\<lambda>e. event_type e = ''keydown'' \<and> key e = ''Backspace'') grp))"

definition pause_count :: "int \<Rightarrow> int list \<Rightarrow> int" where
  "pause_count thr iki_s = (if length iki_s \<noteq> 0 then int (length (filter (\<lambda>x. x > thr) iki_s)) else 0)"

definition backspace_rate_of :: "int \<Rightarrow> int \<Rightarrow> real" where
  "backspace_rate_of n_backspace n_keydowns' =
     (if n_keydowns' \<noteq> 0 then real_of_int n_backspace / real_of_int n_keydowns' else 0)"

definition cpm_of :: "int \<Rightarrow> int \<Rightarrow> int \<Rightarrow> real option" where
  "cpm_of n_keydowns' n_backspace duration_ms' =
     (if duration_ms' > 0
      then Some (real_of_int (n_keydowns' - n_backspace) / (real_of_int duration_ms' / 60000))
      else None)"

text \<open>\<^verbatim>\<open>_agg_row(sid, tt, grp, khd_s, iki_s)\<close>\<close>

definition agg_row :: "string \<Rightarrow> string \<Rightarrow> key_event list \<Rightarrow> int list \<Rightarrow> int list \<Rightarrow> metrics_row" where
  "agg_row sid tt grp khd_s iki_s =
     \<lparr> row_session_id = sid,
       row_test_type = tt,
       n_events = int (length grp),
       n_keydowns = count_keydowns grp,
       duration_sec = real_of_int (duration_ms grp) / 1000,
       mean_khd_ms = (if length khd_s \<noteq> 0 then Some (mean khd_s) else None),
       sd_khd_ms = (if length khd_s \<noteq> 0 then pandas_std khd_s else None),
       cv_khd = (if length khd_s \<noteq> 0 \<and> mean khd_s > 0
                 then nan_div (pandas_std khd_s) (mean khd_s) else None),
       mean_iki_ms = (if length iki_s \<noteq> 0 then Some (mean iki_s) else None),
       sd_iki_ms = (if length iki_s \<noteq> 0 then pandas_std iki_s else None),
       cv_iki = (if length iki_s \<noteq> 0 \<and> mean iki_s > 0
                 then nan_div (pandas_std iki_s) (mean iki_s) else None),
       pause_count_200ms = pause_count 200 iki_s,
       pause_count_500ms = pause_count 500 iki_s,
       backspace_count = count_backspace grp,
       backspace_rate = backspace_rate_of (count_backspace grp) (count_keydowns grp),
       cpm = cpm_of (count_keydowns grp) (count_backspace grp) (duration_ms grp) \<rparr>"

section \<open>Rollup: per test and per session\<close>

text \<open>
  \<^verbatim>\<open>df.sort_values(['session_id', 'test_type', 'pressed_at'])\<close> at the head of
  \<^verbatim>\<open>compute_keystroke_metrics\<close>: the lexicographic order of the three columns,
  strings by code point, with ties kept in the order of the table.
\<close>

definition sort_values_df :: "key_event list \<Rightarrow> key_event list" where
  "sort_values_df df = sort_key (\<lambda>e. (session_id e, test_type e, pressed_at e)) df"

text \<open>
  \<^verbatim>\<open>df.groupby(['session_id', 'test_type'])\<close> iterates over the distinct keys in
  sorted order; each group holds the rows of that key in the order of \<open>df\<close>.
\<close>

definition test_key :: "key_event \<Rightarrow> string \<times> string" where
  "test_key e = (session_id e, test_type e)"

definition groupby_test_keys :: "key_event list \<Rightarrow> (string \<times> string) list" where
  "groupby_test_keys df = sort (remdups (map test_key df))"

definition test_group :: "key_event list \<Rightarrow> string \<times> string \<Rightarrow> key_event list" where
  "test_group df k = filter (\<lambda>e. test_key e = k) df"

text \<open>
  The first loop: \<^verbatim>\<open>khd_list\<close>, \<^verbatim>\<open>session_test\<close> and \<^verbatim>\<open>key_list\<close> zipped, which is
  \<^verbatim>\<open>khd_df\<close> with its rows as \<open>(session_id, test_type, khd_ms, key)\<close>.
\<close>

definition khd_df :: "key_event list \<Rightarrow> (string \<times> string \<times> int \<times> string) list" where
  "khd_df df =
     concat (map (\<lambda>(sid, tt).
        map (\<lambda>(k, khd_ms). (sid, tt, khd_ms, k))
          (khd_pairs (sort_values_pressed_at (test_group df (sid, tt)))))
       (groupby_test_keys df))"

text \<open>The second loop: \<^verbatim>\<open>iki_list\<close>, which is \<^verbatim>\<open>iki_df\<close>.\<close>

definition iki_df :: "key_event list \<Rightarrow> (string \<times> string \<times> int) list" where
  "iki_df df =
     concat (map (\<lambda>(sid, tt).
        map (\<lambda>iki_ms. (sid, tt, iki_ms))
          (iki_vals (sort_values_pressed_at (test_group df (sid, tt)))))
       (groupby_test_keys df))"

text \<open>
  \<^verbatim>\<open>khd_df[(khd_df['session_id'] == sid) & (khd_df['test_type'] == tt)]['khd_ms']\<close>
  and the same selection on \<^verbatim>\<open>iki_df\<close>.
\<close>

definition khd_s_of :: "(string \<times> string \<times> int \<times> string) list \<Rightarrow> string \<Rightarrow> string \<Rightarrow> int list" where
  "khd_s_of kdf sid tt =
     map (\<lambda>(s, t, khd_ms, k). khd_ms) (filter (\<lambda>(s, t, khd_ms, k). s = sid \<and> t = tt) kdf)"

definition iki_s_of :: "(string \<times> string \<times> int) list \<Rightarrow> string \<Rightarrow> string \<Rightarrow> int list" where
  "iki_s_of idf sid tt =
     map (\<lambda>(s, t, iki_ms). iki_ms) (filter (\<lambda>(s, t, iki_ms). s = sid \<and> t = tt) idf)"

definition per_test_rows :: "key_event list \<Rightarrow> metrics_row list" where
  "per_test_rows df =
     map (\<lambda>(sid, tt).
        agg_row sid tt (test_group df (sid, tt))
          (khd_s_of (khd_df df) sid tt) (iki_s_of (iki_df df) sid tt))
       (groupby_test_keys df)"

text \<open>
  \<^verbatim>\<open>Series.unique()\<close>: the distinct values in the order of their first appearance
  (\<open>remdups\<close> keeps the last occurrence of each value, hence the reversals).
\<close>

definition pd_unique :: "'a list \<Rightarrow> 'a list" where
  "pd_unique xs = rev (remdups (rev xs))"

text \<open>
  The loop over \<^verbatim>\<open>df['session_id'].unique()\<close>: all events of the session, sorted by
  time, paired and aggregated under the test type \<open>overall\<close>.
\<close>

definition session_group :: "key_event list \<Rightarrow> string \<Rightarrow> key_event list" where
  "session_group df sid = sort_values_pressed_at (filter (\<lambda>e. session_id e = sid) df)"

definition overall_rows :: "key_event list \<Rightarrow> metrics_row list" where
  "overall_rows df =
     map (\<lambda>sid.
        let grp_all = session_group df sid
        in agg_row sid ''overall'' grp_all (khd_vals grp_all) (iki_vals grp_all))
       (pd_unique (map session_id df))"

definition compute_keystroke_metrics :: "key_event list \<Rightarrow> metrics_row list" where
  "compute_keystroke_metrics df0 =
     (let df = sort_values_df df0 in per_test_rows df @ overall_rows df)"

section \<open>Rollup: per field\<close>

record field_row = metrics_row +
  row_field_name :: "nat list"
  first_key_latency_ms :: int

text \<open>
  \<^verbatim>\<open>df.groupby(["session_id", "test_type"])["pressed_at_ms"].min().to_dict()\<close>
\<close>

definition test_start_ms :: "key_event list \<Rightarrow> (string \<times> string) \<rightharpoonup> int" where
  "test_start_ms df =
     map_of (map (\<lambda>k. (k, Min (set (map pressed_at_ms (test_group df k)))))
       (groupby_test_keys df))"

text \<open>
  \<^verbatim>\<open>str.strip()\<close> removes leading and trailing whitespace. The whitespace of Python
  is the set of code points \<open>c\<close> with \<^verbatim>\<open>chr(c).isspace()\<close>: 9 to 13, 28 to 32, 133 (next
  line), 160 (no-break space), 5760, 8192 to 8202, 8232, 8233, 8239, 8287 and 12288.
\<close>

definition is_py_space :: "nat \<Rightarrow> bool" where
  "is_py_space c \<longleftrightarrow>
     (9 \<le> c \<and> c \<le> 13) \<or> (28 \<le> c \<and> c \<le> 32) \<or> c = 133 \<or> c = 160 \<or> c = 5760 \<or>
     (8192 \<le> c \<and> c \<le> 8202) \<or> c = 8232 \<or> c = 8233 \<or> c = 8239 \<or> c = 8287 \<or> c = 12288"

definition py_strip :: "nat list \<Rightarrow> nat list" where
  "py_strip s = rev (dropWhile is_py_space (rev (dropWhile is_py_space s)))"

text \<open>
  \<^verbatim>\<open>df.groupby(["session_id", "test_type", "field_name"])\<close>: rows with a missing
  \<open>field_name\<close> belong to no group (\<^verbatim>\<open>dropna=True\<close> is the default of pandas), so
  every group key carries a field name.
\<close>

definition field_key :: "key_event \<Rightarrow> string \<times> string \<times> nat list" where
  "field_key e = (session_id e, test_type e, the (field_name e))"

definition groupby_field_keys :: "key_event list \<Rightarrow> (string \<times> string \<times> nat list) list" where
  "groupby_field_keys df =
     sort (remdups (map field_key (filter (\<lambda>e. field_name e \<noteq> None) df)))"

definition field_group :: "key_event list \<Rightarrow> string \<times> string \<times> nat list \<Rightarrow> key_event list" where
  "field_group df k =
     (case k of (sid, tt, field) \<Rightarrow>
        filter (\<lambda>e. session_id e = sid \<and> test_type e = tt \<and> field_name e = Some field) df)"

text \<open>The body of the loop for one group that is not skipped.\<close>

definition field_row_of :: "key_event list \<Rightarrow> string \<Rightarrow> string \<Rightarrow> nat list \<Rightarrow> key_event list \<Rightarrow> field_row" where
  "field_row_of df sid tt field grp0 =
     (let grp = sort_values_pressed_at grp0;
          khd_v = khd_vals grp;
          iki_arr = iki_vals grp;
          times_min = Min (set (map pressed_at_ms grp));
          test_start = (case test_start_ms df (sid, tt) of Some t \<Rightarrow> t | None \<Rightarrow> times_min)
      in \<lparr> row_session_id = sid,
           row_test_type = tt,
           n_events = int (length grp),
           n_keydowns = count_keydowns grp,
           duration_sec = real_of_int (duration_ms grp) / 1000,
           mean_khd_ms = (if khd_v \<noteq> [] then Some (mean khd_v) else None),
           sd_khd_ms = (if khd_v \<noteq> [] then numpy_std khd_v else None),
           cv_khd = (if khd_v \<noteq> [] \<and> mean khd_v > 0
                     then nan_div (numpy_std khd_v) (mean khd_v) else None),
           mean_iki_ms = (if iki_arr \<noteq> [] then Some (mean iki_arr) else None),
           sd_iki_ms = (if iki_arr \<noteq> [] then numpy_std iki_arr else None),
           cv_iki = (if iki_arr \<noteq> [] \<and> mean iki_arr > 0
                     then nan_div (numpy_std iki_arr) (mean iki_arr) else None),
           pause_count_200ms = pause_count 200 iki_arr,
           pause_count_500ms = pause_count 500 iki_arr,
           backspace_count = count_backspace grp,
           backspace_rate = backspace_rate_of (count_backspace grp) (count_keydowns grp),
           cpm = cpm_of (count_keydowns grp) (count_backspace grp) (duration_ms grp),
           row_field_name = field,
           first_key_latency_ms = times_min - test_start \<rparr>)"

text \<open>
  \<^verbatim>\<open>compute_keystroke_metrics_by_field\<close>. A table without a \<open>field_name\<close> column is
  a table whose events all have \<open>field_name = None\<close>: the source returns an empty frame
  for it, and so does the model.
\<close>

definition compute_keystroke_metrics_by_field :: "key_event list \<Rightarrow> field_row list" where
  "compute_keystroke_metrics_by_field df =
     concat (map (\<lambda>(sid, tt, field).
        let grp = field_group df (sid, tt, field)
        in if py_strip field = [] then []
           else if length grp = 0 then []
           else [field_row_of df sid tt field grp])
       (groupby_field_keys df))"

section \<open>Input validation\<close>

text \<open>
  The head of the script, on the normalised column names: the timestamp column is
  \<open>pressed_at\<close> or else \<open>timestamp\<close>; indexing a column that is absent raises
  \<^verbatim>\<open>KeyError\<close>; \<^verbatim>\<open>pd.to_datetime\<close> raises on a cell it cannot parse
  (\<open>to_datetime_ok\<close> says that it does not); then the four columns are checked in order.
\<close>

datatype load_error = KeyError string | ToDatetimeError | ValueError_missing_column string

definition required_columns :: "string list" where
  "required_columns = [''session_id'', ''test_type'', ''event_type'', ''key'']"

definition validate_columns :: "string list \<Rightarrow> bool \<Rightarrow> load_error + string" where
  "validate_columns columns to_datetime_ok =
     (let ts_col = (if ''pressed_at'' \<in> set columns then ''pressed_at'' else ''timestamp'')
      in if ts_col \<notin> set columns then Inl (KeyError ts_col)
         else if \<not> to_datetime_ok then Inl ToDatetimeError
         else (case find (\<lambda>col. col \<notin> set columns) required_columns of
                 Some col \<Rightarrow> Inl (ValueError_missing_column col)
               | None \<Rightarrow> Inr ts_col))"

text \<open>
  CHUNK 1 as a whole: the metrics are computed only after the validation has passed.
\<close>

definition chunk1 :: "string list \<Rightarrow> bool \<Rightarrow> key_event list \<Rightarrow> load_error + (metrics_row list \<times> field_row list)" where
  "chunk1 columns to_datetime_ok keystrokes =
     (case validate_columns columns to_datetime_ok of
        Inl err \<Rightarrow> Inl err
      | Inr ts_col \<Rightarrow>
          Inr (compute_keystroke_metrics keystrokes, compute_keystroke_metrics_by_field keystrokes))"

section \<open>Specification of the key-hold pairing\<close>

text \<open>
  The pairing as the specification words it: the keydown at index \<open>i\<close> is matched with
  the keyup at index \<open>j\<close> when \<open>j\<close> comes later, carries the same key, and no keydown or
  keyup of that key lies strictly between them. A matched pair is kept when its duration
  is strictly between 0 and 2000 ms. The samples are the kept pairs, in the order of their
  keydowns.
\<close>

definition khd_ms_of :: "key_event list \<Rightarrow> nat \<Rightarrow> nat \<Rightarrow> int" where
  "khd_ms_of grp i j = pressed_at_ms (grp ! j) - pressed_at_ms (grp ! i)"

definition khd_match :: "key_event list \<Rightarrow> nat \<Rightarrow> nat \<Rightarrow> bool" where
  "khd_match grp i j \<longleftrightarrow>
     i < j \<and> j < length grp \<and>
     event_type (grp ! i) = ''keydown'' \<and>
     event_type (grp ! j) = ''keyup'' \<and> key (grp ! j) = key (grp ! i) \<and>
     (\<forall>m\<in>{i<..<j}. key (grp ! m) = key (grp ! i) \<longrightarrow>
        event_type (grp ! m) \<noteq> ''keyup'' \<and> event_type (grp ! m) \<noteq> ''keydown'')"

definition khd_kept :: "key_event list \<Rightarrow> nat \<Rightarrow> nat \<Rightarrow> bool" where
  "khd_kept grp i j \<longleftrightarrow>
     khd_match grp i j \<and> 0 < khd_ms_of grp i j \<and> khd_ms_of grp i j < 2000"

definition khd_spec :: "key_event list \<Rightarrow> (string \<times> int) list" where
  "khd_spec grp =
     map (\<lambda>(i, j). (key (grp ! i), khd_ms_of grp i j))
       (filter (\<lambda>(i, j). khd_kept grp i j)
          (List.product [0..<length grp] [0..<length grp]))"

section \<open>Specification of the inter-key intervals\<close>

text \<open>
  The pairing as the specification words it. Before the event at index \<open>i\<close>, the keyup at
  index \<open>j\<close> is pending when it is the most recent keyup and no keydown has come since:
  no keyup and no keydown lies strictly between \<open>j\<close> and \<open>i\<close>. A keydown at \<open>i\<close> with a
  pending keyup at \<open>j\<close> gives the gap keydown time minus keyup time, kept when it is
  strictly between 0 and 5000 ms. The samples are the kept gaps, in the order of their
  keydowns.
\<close>

definition iki_ms_of :: "key_event list \<Rightarrow> nat \<Rightarrow> nat \<Rightarrow> int" where
  "iki_ms_of grp j i = pressed_at_ms (grp ! i) - pressed_at_ms (grp ! j)"

definition pending_keyup :: "key_event list \<Rightarrow> nat \<Rightarrow> nat \<Rightarrow> bool" where
  "pending_keyup grp i j \<longleftrightarrow>
     j < i \<and> event_type (grp ! j) = ''keyup'' \<and>
     (\<forall>m\<in>{j<..<i}. event_type (grp ! m) \<noteq> ''keyup'' \<and> event_type (grp ! m) \<noteq> ''keydown'')"

definition iki_match :: "key_event list \<Rightarrow> nat \<Rightarrow> nat \<Rightarrow> bool" where
  "iki_match grp j i \<longleftrightarrow>
     i < length grp \<and> event_type (grp ! i) = ''keydown'' \<and> pending_keyup grp i j"

definition iki_kept :: "key_event list \<Rightarrow> nat \<Rightarrow> nat \<Rightarrow> bool" where
  "iki_kept grp j i \<longleftrightarrow>
     iki_match grp j i \<and> 0 < iki_ms_of grp j i \<and> iki_ms_of grp j i < 5000"

definition iki_spec :: "key_event list \<Rightarrow> int list" where
  "iki_spec grp =
     map (\<lambda>(i, j). iki_ms_of grp j i)
       (filter (\<lambda>(i, j). iki_kept grp j i)
          (List.product [0..<length grp] [0..<length grp]))"

section \<open>Absent statistics\<close>

text \<open>The statistics of a row are all absent, and its pause counts zero.\<close>

definition stats_absent :: "'a metrics_row_scheme \<Rightarrow> bool" where
  "stats_absent r \<longleftrightarrow>
     mean_khd_ms r = None \<and> sd_khd_ms r = None \<and> cv_khd r = None \<and>
     mean_iki_ms r = None \<and> sd_iki_ms r = None \<and> cv_iki r = None \<and>
     pause_count_200ms r = 0 \<and> pause_count_500ms r = 0"

section \<open>Field names and the passes\<close>

text \<open>
  The same table with other field names: every event \<open>e\<close> gets the field name \<open>g e\<close>.
\<close>

definition relabel_fields :: "(key_event \<Rightarrow> nat list option) \<Rightarrow> key_event list \<Rightarrow> key_event list" where
  "relabel_fields g df = map (\<lambda>e. e\<lparr>field_name := g e\<rparr>) df"

text \<open>The group that a row of the per-field table stands for.\<close>

definition row_key :: "field_row \<Rightarrow> string \<times> string \<times> nat list" where
  "row_key r = (row_session_id r, row_test_type r, row_field_name r)"

section \<open>Concrete event sequences\<close>

text \<open>
  Two keys held at once (\<open>a\<close> and \<open>b\<close>), an auto-repeated keydown of \<open>a\<close>, and a key \<open>c\<close>
  held for 2300 ms.
\<close>

definition ex_khd :: "key_event list" where
  "ex_khd =
     [\<lparr>session_id = ''s1'', test_type = ''free'', field_name = None, event_type = ''keydown'', key = ''a'', pressed_at = 0\<rparr>,
      \<lparr>session_id = ''s1'', test_type = ''free'', field_name = None, event_type = ''keydown'', key = ''b'', pressed_at = 10000000\<rparr>,
      \<lparr>session_id = ''s1'', test_type = ''free'', field_name = None, event_type = ''keydown'', key = ''a'', pressed_at = 20000000\<rparr>,
      \<lparr>session_id = ''s1'', test_type = ''free'', field_name = None, event_type = ''keyup'', key = ''a'', pressed_at = 100000000\<rparr>,
      \<lparr>session_id = ''s1'', test_type = ''free'', field_name = None, event_type = ''keyup'', key = ''b'', pressed_at = 130000000\<rparr>,
      \<lparr>session_id = ''s1'', test_type = ''free'', field_name = None, event_type = ''keydown'', key = ''c'', pressed_at = 200000000\<rparr>,
      \<lparr>session_id = ''s1'', test_type = ''free'', field_name = None, event_type = ''keyup'', key = ''c'', pressed_at = 2500000000\<rparr>]"

text \<open>Scenario C of the specification: \<open>[down A@0, up A@50, down B@80]\<close>.\<close>

definition scenario_C :: "key_event list" where
  "scenario_C =
     [\<lparr>session_id = ''s1'', test_type = ''free'', field_name = None, event_type = ''keydown'', key = ''A'', pressed_at = 0\<rparr>,
      \<lparr>session_id = ''s1'', test_type = ''free'', field_name = None, event_type = ''keyup'', key = ''A'', pressed_at = 50000000\<rparr>,
      \<lparr>session_id = ''s1'', test_type = ''free'', field_name = None, event_type = ''keydown'', key = ''B'', pressed_at = 80000000\<rparr>]"

text \<open>
  Two keyups in a row, two keydowns in a row, a gap of 5900 ms, and an event that is
  neither a keydown nor a keyup between a keyup and the next keydown.
\<close>

definition ex_iki :: "key_event list" where
  "ex_iki =
     [\<lparr>session_id = ''s1'', test_type = ''free'', field_name = None, event_type = ''keyup'', key = ''a'', pressed_at = 0\<rparr>,
      \<lparr>session_id = ''s1'', test_type = ''free'', field_name = None, event_type = ''keyup'', key = ''b'', pressed_at = 20000000\<rparr>,
      \<lparr>session_id = ''s1'', test_type = ''free'', field_name = None, event_type = ''keydown'', key = ''c'', pressed_at = 50000000\<rparr>,
      \<lparr>session_id = ''s1'', test_type = ''free'', field_name = None, event_type = ''keydown'', key = ''d'', pressed_at = 60000000\<rparr>,
      \<lparr>session_id = ''s1'', test_type = ''free'', field_name = None, event_type = ''keyup'', key = ''c'', pressed_at = 100000000\<rparr>,
      \<lparr>session_id = ''s1'', test_type = ''free'', field_name = None, event_type = ''keydown'', key = ''e'', pressed_at = 6000000000\<rparr>,
      \<lparr>session_id = ''s1'', test_type = ''free'', field_name = None, event_type = ''keyup'', key = ''e'', pressed_at = 7000000000\<rparr>,
      \<lparr>session_id = ''s1'', test_type = ''free'', field_name = None, event_type = ''keypress'', key = ''f'', pressed_at = 7010000000\<rparr>,
      \<lparr>session_id = ''s1'', test_type = ''free'', field_name = None, event_type = ''keydown'', key = ''g'', pressed_at = 7040000000\<rparr>]"

text \<open>Keydowns only.\<close>

definition ex_downs :: "key_event list" where
  "ex_downs =
     [\<lparr>session_id = ''s1'', test_type = ''free'', field_name = None, event_type = ''keydown'', key = ''a'', pressed_at = 0\<rparr>,
      \<lparr>session_id = ''s1'', test_type = ''free'', field_name = None, event_type = ''keydown'', key = ''b'', pressed_at = 10000000\<rparr>,
      \<lparr>session_id = ''s1'', test_type = ''free'', field_name = None, event_type = ''keydown'', key = ''c'', pressed_at = 25000000\<rparr>]"

text \<open>
  Scenario F of the specification: five keydowns, one of them Backspace, over 60 seconds,
  all in one field.
\<close>

definition scenario_F :: "key_event list" where
  "scenario_F =
     [\<lparr>session_id = ''s1'', test_type = ''free'', field_name = Some (code_points ''q1''), event_type = ''keydown'', key = ''a'', pressed_at = 0\<rparr>,
      \<lparr>session_id = ''s1'', test_type = ''free'', field_name = Some (code_points ''q1''), event_type = ''keydown'', key = ''b'', pressed_at = 15000000000\<rparr>,
      \<lparr>session_id = ''s1'', test_type = ''free'', field_name = Some (code_points ''q1''), event_type = ''keydown'', key = ''Backspace'', pressed_at = 30000000000\<rparr>,
      \<lparr>session_id = ''s1'', test_type = ''free'', field_name = Some (code_points ''q1''), event_type = ''keydown'', key = ''c'', pressed_at = 45000000000\<rparr>,
      \<lparr>session_id = ''s1'', test_type = ''free'', field_name = Some (code_points ''q1''), event_type = ''keydown'', key = ''d'', pressed_at = 60000000000\<rparr>]"

text \<open>Normalised column lists of a keystrokes table.\<close>

definition columns_with_timestamp :: "string list" where
  "columns_with_timestamp = [''session_id'', ''test_type'', ''event_type'', ''key'', ''timestamp'']"

definition columns_without_key :: "string list" where
  "columns_without_key = [''session_id'', ''test_type'', ''event_type'', ''pressed_at'']"

definition columns_without_time :: "string list" where
  "columns_without_time = [''session_id'', ''test_type'', ''event_type'', ''key'']"

text \<open>Scenario D of the specification: a group with exactly one event.\<close>

definition scenario_D :: "key_event list" where
  "scenario_D =
     [\<lparr>session_id = ''s1'', test_type = ''timed'', field_name = Some (code_points ''q2''), event_type = ''keydown'', key = ''x'', pressed_at = 5000000\<rparr>]"

text \<open>
  One test with an event outside any field at 1000 ms, the field \<open>q1\<close> from 1200 ms, the
  field \<open>q2\<close> from 2500 ms, and an event whose field name is two spaces.
\<close>

definition ex_fields :: "key_event list" where
  "ex_fields =
     [\<lparr>session_id = ''s1'', test_type = ''free'', field_name = None, event_type = ''keydown'', key = ''a'', pressed_at = 1000000000\<rparr>,
      \<lparr>session_id = ''s1'', test_type = ''free'', field_name = Some (code_points ''q1''), event_type = ''keydown'', key = ''b'', pressed_at = 1200000000\<rparr>,
      \<lparr>session_id = ''s1'', test_type = ''free'', field_name = Some (code_points ''q1''), event_type = ''keyup'', key = ''b'', pressed_at = 1300000000\<rparr>,
      \<lparr>session_id = ''s1'', test_type = ''free'', field_name = Some (code_points ''q2''), event_type = ''keydown'', key = ''c'', pressed_at = 2500000000\<rparr>,
      \<lparr>session_id = ''s1'', test_type = ''free'', field_name = Some (code_points ''  ''), event_type = ''keydown'', key = ''d'', pressed_at = 2600000000\<rparr>,
      \<lparr>session_id = ''s1'', test_type = ''free'', field_name = Some (code_points ''q2''), event_type = ''keyup'', key = ''c'', pressed_at = 2650000000\<rparr>]"


text \<open>Two keyups one second apart: no keydown, and no pair of either kind.\<close>

definition ex_keyups :: "key_event list" where
  "ex_keyups =
     [\<lparr>session_id = ''s1'', test_type = ''free'', field_name = None, event_type = ''keyup'', key = ''a'', pressed_at = 0\<rparr>,
      \<lparr>session_id = ''s1'', test_type = ''free'', field_name = None, event_type = ''keyup'', key = ''b'', pressed_at = 1000000000\<rparr>]"

text \<open>
  Field names of whitespace beyond ASCII: a no-break space (code point 160), and a
  next-line character followed by a space (133, 32), beside the field \<open>q1\<close>.
\<close>

definition ex_nbsp :: "key_event list" where
  "ex_nbsp =
     [\<lparr>session_id = ''s1'', test_type = ''free'', field_name = Some [160], event_type = ''keydown'', key = ''a'', pressed_at = 0\<rparr>,
      \<lparr>session_id = ''s1'', test_type = ''free'', field_name = Some (code_points ''q1''), event_type = ''keydown'', key = ''b'', pressed_at = 50000000\<rparr>,
      \<lparr>session_id = ''s1'', test_type = ''free'', field_name = Some [133, 32], event_type = ''keydown'', key = ''c'', pressed_at = 90000000\<rparr>]"

section \<open>Code points\<close>

lemma code_points_eq_iff [simp]: "code_points s = code_points t \<longleftrightarrow> s = t"
  unfolding code_points_def
  by (rule inj_map_eq_map) (rule inj_of_char)

lemma code_points_Nil_iff [simp]: "code_points s = [] \<longleftrightarrow> s = []"
  by (simp add: code_points_def)

text \<open>Trimming the field names of the concrete tables.\<close>

lemma py_strip_examples [simp]:
  "py_strip (code_points ''  '') = []"
  "py_strip (code_points ''q1'') = code_points ''q1''"
  "py_strip (code_points ''q2'') = code_points ''q2''"
  by (simp_all add: py_strip_def is_py_space_def code_points_def)

section \<open>The key-hold pairing meets its specification\<close>

lemma khd_match_blocked:
  assumes "i < m" "m < j" "key (grp ! m) = key (grp ! i)"
    "event_type (grp ! m) = ''keyup'' \<or> event_type (grp ! m) = ''keydown''"
  shows "\<not> khd_match grp i j"
  using assms unfolding khd_match_def by auto

lemma khd_scan_filter:
  assumes down: "event_type (grp ! i) = ''keydown''"
    and lt: "i < j0"
    and free: "\<forall>m. i < m \<and> m < j0 \<longrightarrow> key (grp ! m) = key (grp ! i) \<longrightarrow>
                 event_type (grp ! m) \<noteq> ''keyup'' \<and> event_type (grp ! m) \<noteq> ''keydown''"
  shows "khd_scan grp (key (grp ! i)) (pressed_at_ms (grp ! i)) j0
       = map (khd_ms_of grp i) (filter (khd_kept grp i) [j0..<length grp])"
  using lt free
proof (induction "length grp - j0" arbitrary: j0)
  case 0
  then have "\<not> j0 < length grp" by simp
  then show ?case by (simp add: khd_scan.simps)
next
  case (Suc d)
  then have j0: "j0 < length grp" by simp
  then have upt: "[j0..<length grp] = j0 # [Suc j0..<length grp]"
    by (simp add: upt_conv_Cons)
  show ?case
  proof (cases "key (grp ! j0) = key (grp ! i) \<and>
      (event_type (grp ! j0) = ''keyup'' \<or> event_type (grp ! j0) = ''keydown'')")
    case True
    have rest: "filter (khd_kept grp i) [Suc j0..<length grp] = []"
    proof -
      have "\<not> khd_kept grp i j" if "j \<in> set [Suc j0..<length grp]" for j
      proof -
        from that have "j0 < j" by simp
        with Suc.prems(1) True show ?thesis
          unfolding khd_kept_def using khd_match_blocked [of i j0 j grp] by blast
      qed
      then show ?thesis by (simp add: filter_empty_conv)
    qed
    have here: "khd_match grp i j0 \<longleftrightarrow> event_type (grp ! j0) = ''keyup''"
      using True Suc.prems j0 down unfolding khd_match_def by auto
    show ?thesis
    proof (cases "event_type (grp ! j0) = ''keyup''")
      case up: True
      with True j0 here rest upt show ?thesis
        by (simp add: khd_scan.simps [of grp _ _ j0] khd_kept_def khd_ms_of_def Let_def)
    next
      case notup: False
      with True have "event_type (grp ! j0) = ''keydown''" by blast
      with True j0 here rest upt notup show ?thesis
        by (simp add: khd_scan.simps [of grp _ _ j0] khd_kept_def)
    qed
  next
    case False
    have nomatch: "\<not> khd_kept grp i j0"
      using False unfolding khd_kept_def khd_match_def by auto
    have free': "\<forall>m. i < m \<and> m < Suc j0 \<longrightarrow> key (grp ! m) = key (grp ! i) \<longrightarrow>
        event_type (grp ! m) \<noteq> ''keyup'' \<and> event_type (grp ! m) \<noteq> ''keydown''"
      using Suc.prems(2) False by (metis less_Suc_eq)
    have d: "d = length grp - Suc j0" using Suc.hyps(2) by simp
    have ih: "khd_scan grp (key (grp ! i)) (pressed_at_ms (grp ! i)) (Suc j0)
       = map (khd_ms_of grp i) (filter (khd_kept grp i) [Suc j0..<length grp])"
      using Suc.hyps(1) [OF d _ free'] Suc.prems(1) by simp
    from False j0 have "khd_scan grp (key (grp ! i)) (pressed_at_ms (grp ! i)) j0
       = khd_scan grp (key (grp ! i)) (pressed_at_ms (grp ! i)) (Suc j0)"
      by (subst khd_scan.simps) auto
    with ih nomatch upt show ?thesis by simp
  qed
qed

lemma khd_kept_before: "j \<le> i \<Longrightarrow> \<not> khd_kept grp i j"
  by (simp add: khd_kept_def khd_match_def)

lemma khd_kept_filter_from:
  assumes "i < length grp"
  shows "filter (khd_kept grp i) [0..<length grp] = filter (khd_kept grp i) [Suc i..<length grp]"
proof -
  have "[0..<length grp] = [0..<Suc i] @ [Suc i..<length grp]"
    using assms by (metis Suc_leI le0 upt_add_eq_append le_add_diff_inverse)
  moreover have "filter (khd_kept grp i) [0..<Suc i] = []"
    by (simp add: filter_empty_conv khd_kept_before del: upt_Suc)
  ultimately show ?thesis by (simp del: upt_Suc)
qed

text \<open>What the outer loop appends for the index \<open>i\<close>.\<close>

lemma khd_at_index:
  assumes "i < length grp"
  shows "(if event_type (grp ! i) = ''keydown'' then
           map (\<lambda>khd_ms. (key (grp ! i), khd_ms))
             (khd_scan grp (key (grp ! i)) (pressed_at_ms (grp ! i)) (i + 1))
         else [])
       = map (\<lambda>j. (key (grp ! i), khd_ms_of grp i j)) (filter (khd_kept grp i) [0..<length grp])"
proof (cases "event_type (grp ! i) = ''keydown''")
  case True
  have "khd_scan grp (key (grp ! i)) (pressed_at_ms (grp ! i)) (Suc i)
      = map (khd_ms_of grp i) (filter (khd_kept grp i) [Suc i..<length grp])"
    by (rule khd_scan_filter [OF True]) auto
  with True assms show ?thesis by (simp add: khd_kept_filter_from)
next
  case False
  then have "filter (khd_kept grp i) [0..<length grp] = []"
    by (simp add: filter_empty_conv khd_kept_def khd_match_def)
  with False show ?thesis by simp
qed

lemma khd_loop_concat:
  "khd_loop grp i0
     = concat (map (\<lambda>i. map (\<lambda>j. (key (grp ! i), khd_ms_of grp i j))
                      (filter (khd_kept grp i) [0..<length grp])) [i0..<length grp])"
proof (induction "length grp - i0" arbitrary: i0)
  case 0
  then show ?case by (simp add: khd_loop.simps)
next
  case (Suc d)
  then have i0: "i0 < length grp" by simp
  then have upt: "[i0..<length grp] = i0 # [Suc i0..<length grp]"
    by (simp add: upt_conv_Cons)
  have ih: "khd_loop grp (Suc i0)
     = concat (map (\<lambda>i. map (\<lambda>j. (key (grp ! i), khd_ms_of grp i j))
                      (filter (khd_kept grp i) [0..<length grp])) [Suc i0..<length grp])"
    using Suc.hyps(1) [of "Suc i0"] Suc.hyps(2) by simp
  show ?case
  proof (cases "i0 + 1 < length grp")
    case True
    then have "khd_loop grp i0 =
        (if event_type (grp ! i0) = ''keydown'' then
           map (\<lambda>khd_ms. (key (grp ! i0), khd_ms))
             (khd_scan grp (key (grp ! i0)) (pressed_at_ms (grp ! i0)) (i0 + 1))
         else []) @ khd_loop grp (Suc i0)"
      by (subst khd_loop.simps) simp
    then show ?thesis
      unfolding khd_at_index [OF i0] ih upt by simp
  next
    case False
    with i0 have last: "Suc i0 = length grp" by simp
    have "filter (khd_kept grp i0) [0..<length grp] = []"
      using last by (auto simp: filter_empty_conv khd_kept_def khd_match_def)
    moreover have "khd_loop grp i0 = []"
      using False by (subst khd_loop.simps) simp
    ultimately show ?thesis using upt last by simp
  qed
qed

lemma map_filter_product:
  "map (\<lambda>(i, j). g i j) (filter (\<lambda>(i, j). P i j) (List.product xs ys))
     = concat (map (\<lambda>i. map (g i) (filter (P i) ys)) xs)"
  by (induction xs) (simp_all add: filter_map comp_def)

lemma khd_match_unique:
  assumes "khd_match grp i j" "khd_match grp i j'"
  shows "j = j'"
proof (rule ccontr)
  assume "j \<noteq> j'"
  then consider "j < j'" | "j' < j" by linarith
  then show False
  proof cases
    case 1
    with assms show False using khd_match_blocked [of i j j' grp]
      by (auto simp: khd_match_def)
  next
    case 2
    with assms show False using khd_match_blocked [of i j' j grp]
      by (auto simp: khd_match_def)
  qed
qed


text \<open>
  C1. For every event sequence of one group (time-ascending or not), the samples that the
  hold-duration scan emits are exactly, and in order, the pairs of the specification:
  one sample for each keydown of a key \<open>K\<close> whose next keydown-or-keyup of \<open>K\<close> is a keyup,
  with the duration keyup time minus keydown time, kept only when \<open>0 < duration < 2000\<close>.
  A keydown whose next event of \<open>K\<close> is another keydown of \<open>K\<close> has no match, and a keydown
  has at most one match; events of other keys never affect the match, so keys held at the
  same time each meet their own next keyup.
\<close>

theorem khd_pairs_meets_spec:
  "khd_pairs grp = khd_spec grp \<and>
   (\<forall>i j j'. khd_match grp i j \<and> khd_match grp i j' \<longrightarrow> j = j')"
proof
  show "khd_pairs grp = khd_spec grp"
    unfolding khd_pairs_def khd_spec_def khd_loop_concat map_filter_product ..
  show "\<forall>i j j'. khd_match grp i j \<and> khd_match grp i j' \<longrightarrow> j = j'"
    using khd_match_unique by blast
qed

theorem khd_pairs_meets_spec_witness:
  "khd_pairs ex_khd = [(''b'', 120), (''a'', 80)]
   \<and> khd_match ex_khd 1 4 \<and> khd_match ex_khd 2 3 \<and> \<not> khd_match ex_khd 0 3
   \<and> khd_match ex_khd 5 6 \<and> \<not> khd_kept ex_khd 5 6"
proof -
  have a: "khd_spec ex_khd = [(''b'', 120), (''a'', 80)]"
    by code_simp
  have b: "khd_match ex_khd 1 4 \<and> khd_match ex_khd 2 3 \<and> \<not> khd_match ex_khd 0 3
     \<and> khd_match ex_khd 5 6 \<and> \<not> khd_kept ex_khd 5 6"
    by code_simp
  show ?thesis
    using khd_pairs_meets_spec [of ex_khd] a b by simp
qed

section \<open>The interval scan meets its specification\<close>

lemma filter_upt_single:
  assumes "j < n" "P j" "\<And>k. k < n \<Longrightarrow> P k \<Longrightarrow> k = j"
  shows "filter P [0..<n] = [j]"
proof -
  have "[0..<j + (n - j)] = [0..<j] @ [j..<j + (n - j)]"
    by (rule upt_add_eq_append) simp
  moreover have "[j..<n] = j # [Suc j..<n]"
    using assms(1) by (simp add: upt_conv_Cons)
  ultimately have split: "[0..<n] = [0..<j] @ j # [Suc j..<n]"
    using assms(1) by simp
  have "\<not> P k" if "k \<in> set [0..<j]" for k
    using that assms(1) assms(3) [of k] by auto
  then have before: "filter P [0..<j] = []"
    by (simp add: filter_empty_conv)
  have "\<not> P k" if "k \<in> set [Suc j..<n]" for k
    using that assms(3) [of k] by auto
  then have after: "filter P [Suc j..<n] = []"
    by (simp add: filter_empty_conv)
  from assms(2) before after show ?thesis unfolding split by simp
qed

lemma pending_keyup_unique:
  assumes "pending_keyup grp i j" "pending_keyup grp i j'"
  shows "j = j'"
proof (rule ccontr)
  assume "j \<noteq> j'"
  then consider "j < j'" | "j' < j" by linarith
  then show False
    using assms unfolding pending_keyup_def by cases auto
qed

lemma pending_keyup_Suc:
  "pending_keyup grp (Suc i) j \<longleftrightarrow>
     (if event_type (grp ! i) = ''keyup'' then j = i
      else if event_type (grp ! i) = ''keydown'' then False
      else pending_keyup grp i j)"
proof -
  consider "j < i" | "j = i" | "i < j" by linarith
  then show ?thesis
  proof cases
    case 1
    then have "{j<..<Suc i} = insert i {j<..<i}" by auto
    with 1 show ?thesis unfolding pending_keyup_def by simp
  next
    case 2
    then have "{j<..<Suc i} = {}" by auto
    with 2 show ?thesis unfolding pending_keyup_def by simp
  next
    case 3
    then show ?thesis unfolding pending_keyup_def by simp
  qed
qed

lemma iki_at_index_match:
  assumes "i < length grp" "event_type (grp ! i) = ''keydown''" "pending_keyup grp i j"
  shows "filter (\<lambda>j. iki_kept grp j i) [0..<length grp]
       = (if 0 < iki_ms_of grp j i \<and> iki_ms_of grp j i < 5000 then [j] else [])"
proof (cases "0 < iki_ms_of grp j i \<and> iki_ms_of grp j i < 5000")
  case True
  have jn: "j < length grp" using assms unfolding pending_keyup_def by simp
  have kept: "iki_kept grp j i"
    using assms True by (simp add: iki_kept_def iki_match_def)
  have only: "k = j" if "iki_kept grp k i" for k
    using that assms(3) pending_keyup_unique unfolding iki_kept_def iki_match_def by blast
  have "filter (\<lambda>j. iki_kept grp j i) [0..<length grp] = [j]"
    using filter_upt_single [of j "length grp" "\<lambda>j. iki_kept grp j i"] jn kept only
    by blast
  with True show ?thesis by simp
next
  case False
  have "\<not> iki_kept grp k i" for k
  proof
    assume k: "iki_kept grp k i"
    then have "k = j"
      using assms(3) pending_keyup_unique unfolding iki_kept_def iki_match_def by blast
    with k False show False by (simp add: iki_kept_def)
  qed
  then have "filter (\<lambda>j. iki_kept grp j i) [0..<length grp] = []"
    by (simp add: filter_empty_conv)
  with False show ?thesis by simp
qed

lemma iki_at_index_none:
  assumes "event_type (grp ! i) \<noteq> ''keydown'' \<or> (\<forall>j. \<not> pending_keyup grp i j)"
  shows "filter (\<lambda>j. iki_kept grp j i) [0..<length grp] = []"
  using assms by (auto simp: filter_empty_conv iki_kept_def iki_match_def)

lemma iki_loop_concat:
  assumes "last_keyup_time = None \<longrightarrow> (\<forall>j. \<not> pending_keyup grp i j)"
    and "\<forall>t. last_keyup_time = Some t \<longrightarrow>
           (\<exists>j. pending_keyup grp i j \<and> t = pressed_at_ms (grp ! j))"
  shows "iki_loop grp i last_keyup_time
     = concat (map (\<lambda>i. map (\<lambda>j. iki_ms_of grp j i)
                      (filter (\<lambda>j. iki_kept grp j i) [0..<length grp])) [i..<length grp])"
  using assms
proof (induction "length grp - i" arbitrary: i last_keyup_time)
  case 0
  then show ?case by (simp add: iki_loop.simps)
next
  case (Suc d)
  let ?emit = "\<lambda>i. map (\<lambda>j. iki_ms_of grp j i) (filter (\<lambda>j. iki_kept grp j i) [0..<length grp])"
  from Suc.hyps(2) have i: "i < length grp" by simp
  then have upt: "[i..<length grp] = i # [Suc i..<length grp]"
    by (simp add: upt_conv_Cons)
  have d: "d = length grp - Suc i" using Suc.hyps(2) by simp
  show ?case
  proof (cases "event_type (grp ! i) = ''keyup''")
    case True
    have step: "iki_loop grp i last_keyup_time
        = iki_loop grp (Suc i) (Some (pressed_at_ms (grp ! i)))"
      using i True by (subst iki_loop.simps) simp
    have ih: "iki_loop grp (Suc i) (Some (pressed_at_ms (grp ! i)))
        = concat (map ?emit [Suc i..<length grp])"
      by (rule Suc.hyps(1) [OF d]) (simp_all add: pending_keyup_Suc True)
    have "?emit i = []"
      using True iki_at_index_none [of grp i] by simp
    with step ih upt show ?thesis by simp
  next
    case notup: False
    show ?thesis
    proof (cases "event_type (grp ! i) = ''keydown''")
      case down: True
      have ih: "iki_loop grp (Suc i) None = concat (map ?emit [Suc i..<length grp])"
        by (rule Suc.hyps(1) [OF d]) (simp_all add: pending_keyup_Suc notup down)
      show ?thesis
      proof (cases last_keyup_time)
        case None
        have step: "iki_loop grp i last_keyup_time = iki_loop grp (Suc i) None"
          using i notup None by (subst iki_loop.simps) simp
        have "?emit i = []"
          using None Suc.prems(1) iki_at_index_none [of grp i] by simp
        with step ih upt show ?thesis by simp
      next
        case (Some t)
        then obtain j where j: "pending_keyup grp i j" "t = pressed_at_ms (grp ! j)"
          using Suc.prems(2) by blast
        have step: "iki_loop grp i last_keyup_time
            = (if 0 < iki_ms_of grp j i \<and> iki_ms_of grp j i < 5000 then [iki_ms_of grp j i] else [])
              @ iki_loop grp (Suc i) None"
          using i notup down Some j(2)
          by (subst iki_loop.simps) (simp add: Let_def iki_ms_of_def)
        have "?emit i = (if 0 < iki_ms_of grp j i \<and> iki_ms_of grp j i < 5000 then [iki_ms_of grp j i] else [])"
          unfolding iki_at_index_match [OF i down j(1)] by simp
        with step ih upt show ?thesis by simp
      qed
    next
      case other: False
      have step: "iki_loop grp i last_keyup_time = iki_loop grp (Suc i) last_keyup_time"
        using i notup other by (subst iki_loop.simps) simp
      have ih: "iki_loop grp (Suc i) last_keyup_time = concat (map ?emit [Suc i..<length grp])"
        by (rule Suc.hyps(1) [OF d]) (use Suc.prems in \<open>simp_all add: pending_keyup_Suc notup other\<close>)
      have "?emit i = []"
        using other iki_at_index_none [of grp i] by simp
      with step ih upt show ?thesis by simp
    qed
  qed
qed

lemma iki_vals_spec: "iki_vals grp = iki_spec grp"
proof -
  have "iki_loop grp 0 None
     = concat (map (\<lambda>i. map (\<lambda>j. iki_ms_of grp j i)
                      (filter (\<lambda>j. iki_kept grp j i) [0..<length grp])) [0..<length grp])"
    by (rule iki_loop_concat) (simp_all add: pending_keyup_def)
  then show ?thesis
    unfolding iki_vals_def iki_spec_def map_filter_product by simp
qed

lemma iki_no_keyup:
  assumes "\<forall>e\<in>set grp. event_type e \<noteq> ''keyup''"
  shows "iki_spec grp = []"
proof -
  have "\<not> iki_kept grp j i" for i j
    using assms unfolding iki_kept_def iki_match_def pending_keyup_def
    by (metis less_trans nth_mem)
  then show ?thesis by (simp add: iki_spec_def)
qed

text \<open>
  C2. For every event sequence of one group, the interval scan emits exactly, and in
  order, the gaps of the specification: a keydown emits keydown time minus the time of
  the pending keyup (the most recent keyup, with no keydown since), kept only when
  \<open>0 < gap < 5000\<close>, and after it nothing is pending. Scenario C yields the single
  sample 30, and a sequence without any keyup yields no sample.
\<close>

theorem iki_vals_meets_spec:
  "iki_vals grp = iki_spec grp \<and>
   iki_vals scenario_C = [30] \<and>
   ((\<forall>e\<in>set grp. event_type e \<noteq> ''keyup'') \<longrightarrow> iki_vals grp = [])"
proof (intro conjI impI)
  show "iki_vals grp = iki_spec grp"
    by (rule iki_vals_spec)
  show "iki_vals scenario_C = [30]"
    by code_simp
  show "iki_vals grp = []" if "\<forall>e\<in>set grp. event_type e \<noteq> ''keyup''"
    using that by (simp add: iki_vals_spec iki_no_keyup)
qed

theorem iki_vals_meets_spec_witness:
  "iki_vals ex_iki = [30, 40]
   \<and> iki_match ex_iki 1 2 \<and> \<not> iki_match ex_iki 0 2 \<and> \<not> iki_match ex_iki 2 3
   \<and> iki_match ex_iki 4 5 \<and> \<not> iki_kept ex_iki 4 5 \<and> iki_match ex_iki 6 8
   \<and> map event_type ex_downs = [''keydown'', ''keydown'', ''keydown'']
   \<and> iki_vals ex_downs = []"
proof -
  have a: "iki_spec ex_iki = [30, 40]"
    by code_simp
  have b: "iki_match ex_iki 1 2 \<and> \<not> iki_match ex_iki 0 2 \<and> \<not> iki_match ex_iki 2 3
     \<and> iki_match ex_iki 4 5 \<and> \<not> iki_kept ex_iki 4 5 \<and> iki_match ex_iki 6 8"
    by code_simp
  have c: "\<forall>e\<in>set ex_downs. event_type e \<noteq> ''keyup''"
    by code_simp
  have d: "iki_vals ex_downs = []"
    using iki_vals_meets_spec [of ex_downs] c by blast
  have e: "iki_vals ex_iki = iki_spec ex_iki"
    using iki_vals_meets_spec [of ex_iki] by blast
  have f: "map event_type ex_downs = [''keydown'', ''keydown'', ''keydown'']"
    by code_simp
  show ?thesis
    unfolding e a using b d f by blast
qed

section \<open>Validation of the input columns\<close>

lemma find_missing_Some:
  assumes "col \<in> set required_columns" "col \<notin> set columns"
  shows "\<exists>c. find (\<lambda>c. c \<notin> set columns) required_columns = Some c
           \<and> c \<in> set required_columns \<and> c \<notin> set columns"
proof (cases "find (\<lambda>c. c \<notin> set columns) required_columns")
  case None
  with assms show ?thesis by (auto simp: find_None_iff)
next
  case (Some c)
  then have "c \<in> set required_columns \<and> c \<notin> set columns"
    by (auto simp: find_Some_iff)
  with Some show ?thesis by simp
qed

lemma find_missing_None:
  assumes "set required_columns \<subseteq> set columns"
  shows "find (\<lambda>c. c \<notin> set columns) required_columns = None"
  using assms by (auto simp: find_None_iff)

text \<open>
  C3 (as amended). If one of the columns \<open>session_id\<close>, \<open>test_type\<close>, \<open>event_type\<close>, \<open>key\<close>
  is absent, CHUNK 1 fails and no metric is computed; when the timestamp column is present
  and parses, the failure names the first missing one of these columns. The column
  \<open>pressed_at\<close> is not required: when it is absent and a column \<open>timestamp\<close> is present,
  that column is used and CHUNK 1 succeeds. When both are absent, CHUNK 1 fails.
\<close>

theorem chunk1_validation:
  "(col \<in> set required_columns \<and> col \<notin> set columns \<longrightarrow>
      (\<exists>err. chunk1 columns to_datetime_ok keystrokes = Inl err) \<and>
      ((''pressed_at'' \<in> set columns \<or> ''timestamp'' \<in> set columns) \<and> to_datetime_ok \<longrightarrow>
         (\<exists>c. find (\<lambda>c. c \<notin> set columns) required_columns = Some c
            \<and> c \<in> set required_columns \<and> c \<notin> set columns
            \<and> chunk1 columns to_datetime_ok keystrokes = Inl (ValueError_missing_column c))))
   \<and> (''pressed_at'' \<notin> set columns \<and> ''timestamp'' \<in> set columns \<and> to_datetime_ok
        \<and> set required_columns \<subseteq> set columns \<longrightarrow>
        chunk1 columns to_datetime_ok keystrokes
          = Inr (compute_keystroke_metrics keystrokes, compute_keystroke_metrics_by_field keystrokes))
   \<and> (''pressed_at'' \<notin> set columns \<and> ''timestamp'' \<notin> set columns \<longrightarrow>
        (\<exists>err. chunk1 columns to_datetime_ok keystrokes = Inl err))"
proof (intro conjI impI)
  assume a: "col \<in> set required_columns \<and> col \<notin> set columns"
  then obtain c where c: "find (\<lambda>c. c \<notin> set columns) required_columns = Some c"
    "c \<in> set required_columns" "c \<notin> set columns"
    using find_missing_Some by blast
  show "\<exists>err. chunk1 columns to_datetime_ok keystrokes = Inl err"
    using c(1) by (simp add: chunk1_def validate_columns_def Let_def)
  show "\<exists>c. find (\<lambda>c. c \<notin> set columns) required_columns = Some c
            \<and> c \<in> set required_columns \<and> c \<notin> set columns
            \<and> chunk1 columns to_datetime_ok keystrokes = Inl (ValueError_missing_column c)"
    if "(''pressed_at'' \<in> set columns \<or> ''timestamp'' \<in> set columns) \<and> to_datetime_ok"
    using that c by (auto simp: chunk1_def validate_columns_def Let_def)
next
  assume "''pressed_at'' \<notin> set columns \<and> ''timestamp'' \<in> set columns \<and> to_datetime_ok
        \<and> set required_columns \<subseteq> set columns"
  then show "chunk1 columns to_datetime_ok keystrokes
          = Inr (compute_keystroke_metrics keystrokes, compute_keystroke_metrics_by_field keystrokes)"
    using find_missing_None [of columns]
    by (simp add: chunk1_def validate_columns_def Let_def)
next
  assume "''pressed_at'' \<notin> set columns \<and> ''timestamp'' \<notin> set columns"
  then show "\<exists>err. chunk1 columns to_datetime_ok keystrokes = Inl err"
    by (simp add: chunk1_def validate_columns_def Let_def)
qed

text \<open>
  C3 as stated fails: a table with the columns \<open>session_id\<close>, \<open>test_type\<close>, \<open>event_type\<close>,
  \<open>key\<close> and \<open>timestamp\<close> has no column \<open>pressed_at\<close>, and CHUNK 1 computes its metrics.
\<close>

theorem pressed_at_absent_counterexample:
  "''pressed_at'' \<notin> set columns_with_timestamp \<and>
   validate_columns columns_with_timestamp True = Inr ''timestamp'' \<and>
   chunk1 columns_with_timestamp True scenario_C
     = Inr (compute_keystroke_metrics scenario_C, compute_keystroke_metrics_by_field scenario_C)"
  by (simp add: chunk1_def validate_columns_def columns_with_timestamp_def required_columns_def)

theorem chunk1_validation_witness:
  "''key'' \<in> set required_columns \<and> ''key'' \<notin> set columns_without_key \<and>
   chunk1 columns_without_key True scenario_C = Inl (ValueError_missing_column ''key'') \<and>
   set required_columns \<subseteq> set columns_with_timestamp \<and>
   chunk1 columns_with_timestamp True scenario_C
     = Inr (compute_keystroke_metrics scenario_C, compute_keystroke_metrics_by_field scenario_C) \<and>
   ''pressed_at'' \<notin> set columns_without_time \<and> ''timestamp'' \<notin> set columns_without_time \<and>
   (\<exists>err. chunk1 columns_without_time True scenario_C = Inl err)"
proof -
  have a: "''key'' \<in> set required_columns \<and> ''key'' \<notin> set columns_without_key"
    by (simp add: required_columns_def columns_without_key_def)
  have b: "''pressed_at'' \<in> set columns_without_key"
    by (simp add: columns_without_key_def)
  have f: "find (\<lambda>c. c \<notin> set columns_without_key) required_columns = Some ''key''"
    by (simp add: required_columns_def columns_without_key_def)
  have c: "chunk1 columns_without_key True scenario_C = Inl (ValueError_missing_column ''key'')"
    using chunk1_validation [of "''key''" columns_without_key True scenario_C] a b f by auto
  have d: "''pressed_at'' \<notin> set columns_with_timestamp \<and> ''timestamp'' \<in> set columns_with_timestamp
      \<and> set required_columns \<subseteq> set columns_with_timestamp"
    by (simp add: required_columns_def columns_with_timestamp_def)
  have e: "chunk1 columns_with_timestamp True scenario_C
     = Inr (compute_keystroke_metrics scenario_C, compute_keystroke_metrics_by_field scenario_C)"
    using chunk1_validation [of _ columns_with_timestamp True scenario_C] d by blast
  have g: "''pressed_at'' \<notin> set columns_without_time \<and> ''timestamp'' \<notin> set columns_without_time"
    by (simp add: columns_without_time_def)
  have h: "\<exists>err. chunk1 columns_without_time True scenario_C = Inl err"
    using chunk1_validation [of _ columns_without_time True scenario_C] g by blast
  show ?thesis using a c d e g h by blast
qed

section \<open>Rows of the tables\<close>

lemma length_filter_insort_key:
  "length (filter P (insort_key f x xs)) = length (filter P (x # xs))"
  by (induction xs) auto

lemma length_filter_sort_key:
  "length (filter P (sort_key f xs)) = length (filter P xs)"
  by (induction xs) (auto simp: length_filter_insort_key)

lemma count_keydowns_sort [simp]:
  "count_keydowns (sort_values_pressed_at grp) = count_keydowns grp"
  by (simp add: count_keydowns_def sort_values_pressed_at_def length_filter_sort_key)

lemma count_backspace_sort [simp]:
  "count_backspace (sort_values_pressed_at grp) = count_backspace grp"
  by (simp add: count_backspace_def sort_values_pressed_at_def length_filter_sort_key)

lemma length_sort_values [simp]: "length (sort_values_pressed_at grp) = length grp"
  by (simp add: sort_values_pressed_at_def)

lemma set_sort_values [simp]: "set (sort_values_pressed_at grp) = set grp"
  by (simp add: sort_values_pressed_at_def)

lemma duration_ms_sort [simp]: "duration_ms (sort_values_pressed_at grp) = duration_ms grp"
  by (simp add: duration_ms_def)

lemma count_backspace_le: "count_backspace grp \<le> count_keydowns grp"
  unfolding count_backspace_def count_keydowns_def
  by (induction grp) auto

lemma count_backspace_nonneg: "0 \<le> count_backspace grp"
  by (simp add: count_backspace_def)

lemma duration_ms_nonneg: "0 \<le> duration_ms grp"
proof (cases "length grp \<ge> 2")
  case True
  then obtain e where "e \<in> set grp" by (cases grp) auto
  then have t: "pressed_at_ms e \<in> set (map pressed_at_ms grp)" by simp
  define t where "t = pressed_at_ms e"
  note t = t [folded t_def]
  have "Min (set (map pressed_at_ms grp)) \<le> t" "t \<le> Max (set (map pressed_at_ms grp))"
    using t by (simp_all only: Min_le Max_ge List.finite_set)
  then have "Min (set (map pressed_at_ms grp)) \<le> Max (set (map pressed_at_ms grp))"
    by linarith
  with True show ?thesis by (simp add: duration_ms_def)
next
  case False
  then show ?thesis by (simp add: duration_ms_def)
qed

lemma duration_ms_short: "length grp < 2 \<Longrightarrow> duration_ms grp = 0"
  by (simp add: duration_ms_def)

text \<open>Where the rows of the tables come from.\<close>

lemma per_test_rows_elem:
  assumes "r \<in> set (per_test_rows df)"
  obtains sid tt where "(sid, tt) \<in> set (groupby_test_keys df)"
    and "r = agg_row sid tt (test_group df (sid, tt))
               (khd_s_of (khd_df df) sid tt) (iki_s_of (iki_df df) sid tt)"
  using assms unfolding per_test_rows_def by auto

lemma overall_rows_elem:
  assumes "r \<in> set (overall_rows df)"
  obtains sid where "sid \<in> session_id ` set df"
    and "r = agg_row sid ''overall'' (session_group df sid)
               (khd_vals (session_group df sid)) (iki_vals (session_group df sid))"
  using assms unfolding overall_rows_def by (auto simp: Let_def pd_unique_def)

lemma metrics_rows_elem:
  assumes "r \<in> set (compute_keystroke_metrics df)"
  obtains sid tt grp khd_s iki_s where "r = agg_row sid tt grp khd_s iki_s"
  using assms unfolding compute_keystroke_metrics_def Let_def
  by (auto elim: per_test_rows_elem overall_rows_elem)

lemma field_rows_elem:
  assumes "r \<in> set (compute_keystroke_metrics_by_field df)"
  obtains sid tt field where "(sid, tt, field) \<in> set (groupby_field_keys df)"
    and "py_strip field \<noteq> []"
    and "r = field_row_of df sid tt field (field_group df (sid, tt, field))"
  using assms unfolding compute_keystroke_metrics_by_field_def
  by (auto simp: Let_def split: if_splits)

text \<open>The fields of a row that do not depend on the paired samples.\<close>

lemma agg_row_counts [simp]:
  "row_session_id (agg_row sid tt grp khd_s iki_s) = sid"
  "row_test_type (agg_row sid tt grp khd_s iki_s) = tt"
  "n_events (agg_row sid tt grp khd_s iki_s) = int (length grp)"
  "n_keydowns (agg_row sid tt grp khd_s iki_s) = count_keydowns grp"
  "backspace_count (agg_row sid tt grp khd_s iki_s) = count_backspace grp"
  "backspace_rate (agg_row sid tt grp khd_s iki_s)
     = backspace_rate_of (count_backspace grp) (count_keydowns grp)"
  "duration_sec (agg_row sid tt grp khd_s iki_s) = real_of_int (duration_ms grp) / 1000"
  "cpm (agg_row sid tt grp khd_s iki_s)
     = cpm_of (count_keydowns grp) (count_backspace grp) (duration_ms grp)"
  by (simp_all add: agg_row_def)

lemma field_row_counts [simp]:
  "row_session_id (field_row_of df sid tt field grp) = sid"
  "row_test_type (field_row_of df sid tt field grp) = tt"
  "row_field_name (field_row_of df sid tt field grp) = field"
  "n_events (field_row_of df sid tt field grp) = int (length grp)"
  "n_keydowns (field_row_of df sid tt field grp) = count_keydowns grp"
  "backspace_count (field_row_of df sid tt field grp) = count_backspace grp"
  "backspace_rate (field_row_of df sid tt field grp)
     = backspace_rate_of (count_backspace grp) (count_keydowns grp)"
  "duration_sec (field_row_of df sid tt field grp) = real_of_int (duration_ms grp) / 1000"
  "cpm (field_row_of df sid tt field grp)
     = cpm_of (count_keydowns grp) (count_backspace grp) (duration_ms grp)"
  by (simp_all add: field_row_of_def Let_def)

lemma cpm_of_formula:
  assumes "0 \<le> d"
  shows "cpm_of nk nb d
       = (if real_of_int d / 1000 = 0 then None
          else Some (real_of_int (nk - nb) / (real_of_int d / 1000 / 60)))"
  using assms by (auto simp: cpm_of_def)

lemma backspace_rate_formula:
  "backspace_rate_of nb nk = (if nk = 0 then 0 else real_of_int nb / real_of_int nk)"
  by (simp add: backspace_rate_of_def)

lemma count_filter_sort_df:
  "count_keydowns (filter Q (sort_values_df df)) = count_keydowns (filter Q df)"
  "count_backspace (filter Q (sort_values_df df)) = count_backspace (filter Q df)"
  by (simp_all add: count_keydowns_def count_backspace_def sort_values_df_def
      length_filter_sort_key)

lemma cpm_row_agg:
  "cpm (agg_row sid tt grp khd_s iki_s)
     = (if duration_sec (agg_row sid tt grp khd_s iki_s) = 0 then None
        else Some (real_of_int (n_keydowns (agg_row sid tt grp khd_s iki_s)
                      - backspace_count (agg_row sid tt grp khd_s iki_s))
                   / (duration_sec (agg_row sid tt grp khd_s iki_s) / 60)))"
  using cpm_of_formula [OF duration_ms_nonneg [of grp]] by simp

lemma cpm_row_field:
  "cpm (field_row_of df sid tt field grp)
     = (if duration_sec (field_row_of df sid tt field grp) = 0 then None
        else Some (real_of_int (n_keydowns (field_row_of df sid tt field grp)
                      - backspace_count (field_row_of df sid tt field grp))
                   / (duration_sec (field_row_of df sid tt field grp) / 60)))"
  using cpm_of_formula [OF duration_ms_nonneg [of grp]] by simp

text \<open>
  C5. In every row of the metrics table (per test and per session overall) and of the
  per-field table, \<open>cpm\<close> is absent when \<open>duration_sec\<close> is 0, and otherwise it is
  \<open>(n_keydowns - backspace_count) / (duration_sec / 60)\<close>. Scenario F (5 keydowns, 1
  Backspace, 60 s) gives \<open>cpm = 4\<close> in every table.
\<close>

theorem cpm_formula:
  "(\<forall>r\<in>set (compute_keystroke_metrics df).
      cpm r = (if duration_sec r = 0 then None
               else Some (real_of_int (n_keydowns r - backspace_count r) / (duration_sec r / 60))))
   \<and> (\<forall>r\<in>set (compute_keystroke_metrics_by_field df).
      cpm r = (if duration_sec r = 0 then None
               else Some (real_of_int (n_keydowns r - backspace_count r) / (duration_sec r / 60))))"
proof (intro conjI ballI)
  fix r assume "r \<in> set (compute_keystroke_metrics df)"
  then obtain sid tt grp khd_s iki_s where r: "r = agg_row sid tt grp khd_s iki_s"
    by (rule metrics_rows_elem)
  show "cpm r = (if duration_sec r = 0 then None
               else Some (real_of_int (n_keydowns r - backspace_count r) / (duration_sec r / 60)))"
    unfolding r by (rule cpm_row_agg)
next
  fix r assume "r \<in> set (compute_keystroke_metrics_by_field df)"
  then obtain sid tt field
    where r: "r = field_row_of df sid tt field (field_group df (sid, tt, field))"
    by (rule field_rows_elem)
  show "cpm r = (if duration_sec r = 0 then None
               else Some (real_of_int (n_keydowns r - backspace_count r) / (duration_sec r / 60)))"
    unfolding r by (rule cpm_row_field)
qed

lemma scenario_F_keys:
  "groupby_test_keys (sort_values_df scenario_F) = [(''s1'', ''free'')]"
  "pd_unique (map session_id (sort_values_df scenario_F)) = [''s1'']"
  "groupby_field_keys scenario_F = [(''s1'', ''free'', (code_points ''q1''))]"
  by code_simp+

lemma scenario_F_counts:
  "count_keydowns (test_group (sort_values_df scenario_F) (''s1'', ''free'')) = 5"
  "count_backspace (test_group (sort_values_df scenario_F) (''s1'', ''free'')) = 1"
  "duration_ms (test_group (sort_values_df scenario_F) (''s1'', ''free'')) = 60000"
  "count_keydowns (session_group (sort_values_df scenario_F) ''s1'') = 5"
  "count_backspace (session_group (sort_values_df scenario_F) ''s1'') = 1"
  "duration_ms (session_group (sort_values_df scenario_F) ''s1'') = 60000"
  "count_keydowns (field_group scenario_F (''s1'', ''free'', (code_points ''q1''))) = 5"
  "count_backspace (field_group scenario_F (''s1'', ''free'', (code_points ''q1''))) = 1"
  "duration_ms (field_group scenario_F (''s1'', ''free'', (code_points ''q1''))) = 60000"
  "length (field_group scenario_F (''s1'', ''free'', (code_points ''q1''))) = 5"
  by code_simp+

lemma scenario_F_metrics:
  "compute_keystroke_metrics scenario_F \<noteq> []"
  "list_all (\<lambda>r. n_keydowns r = 5 \<and> backspace_count r = 1 \<and> duration_sec r = 60)
     (compute_keystroke_metrics scenario_F)"
  by (simp_all add: compute_keystroke_metrics_def per_test_rows_def overall_rows_def Let_def
      scenario_F_keys scenario_F_counts)

lemma scenario_F_fields:
  "compute_keystroke_metrics_by_field scenario_F \<noteq> []"
  "list_all (\<lambda>r. n_keydowns r = 5 \<and> backspace_count r = 1 \<and> duration_sec r = 60)
     (compute_keystroke_metrics_by_field scenario_F)"
  by (simp_all add: compute_keystroke_metrics_by_field_def Let_def
      scenario_F_keys scenario_F_counts)

theorem cpm_formula_witness:
  "compute_keystroke_metrics scenario_F \<noteq> []
   \<and> list_all (\<lambda>r. n_keydowns r = 5 \<and> backspace_count r = 1 \<and> duration_sec r = 60 \<and> cpm r = Some 4)
       (compute_keystroke_metrics scenario_F)
   \<and> compute_keystroke_metrics_by_field scenario_F \<noteq> []
   \<and> list_all (\<lambda>r. n_keydowns r = 5 \<and> backspace_count r = 1 \<and> duration_sec r = 60 \<and> cpm r = Some 4)
       (compute_keystroke_metrics_by_field scenario_F)"
proof -
  have "cpm r = Some 4"
    if "r \<in> set (compute_keystroke_metrics scenario_F)" for r
  proof -
    have "n_keydowns r = 5 \<and> backspace_count r = 1 \<and> duration_sec r = 60"
      using that scenario_F_metrics(2) by (simp add: list_all_iff)
    moreover have "cpm r = (if duration_sec r = 0 then None
        else Some (real_of_int (n_keydowns r - backspace_count r) / (duration_sec r / 60)))"
      using that cpm_formula [of scenario_F] by blast
    ultimately show ?thesis by simp
  qed
  moreover have "cpm r = Some 4"
    if "r \<in> set (compute_keystroke_metrics_by_field scenario_F)" for r
  proof -
    have "n_keydowns r = 5 \<and> backspace_count r = 1 \<and> duration_sec r = 60"
      using that scenario_F_fields(2) by (simp add: list_all_iff)
    moreover have "cpm r = (if duration_sec r = 0 then None
        else Some (real_of_int (n_keydowns r - backspace_count r) / (duration_sec r / 60)))"
      using that cpm_formula [of scenario_F] by blast
    ultimately show ?thesis by simp
  qed
  ultimately show ?thesis
    using scenario_F_metrics scenario_F_fields by (simp add: list_all_iff)
qed

section \<open>Backspaces\<close>

lemma backspace_row_agg:
  "0 \<le> backspace_count (agg_row sid tt grp khd_s iki_s)
   \<and> backspace_count (agg_row sid tt grp khd_s iki_s) \<le> n_keydowns (agg_row sid tt grp khd_s iki_s)
   \<and> backspace_rate (agg_row sid tt grp khd_s iki_s)
       = (if n_keydowns (agg_row sid tt grp khd_s iki_s) = 0 then 0
          else real_of_int (backspace_count (agg_row sid tt grp khd_s iki_s))
               / real_of_int (n_keydowns (agg_row sid tt grp khd_s iki_s)))"
  by (simp add: count_backspace_le count_backspace_nonneg backspace_rate_formula)

lemma backspace_row_field:
  "0 \<le> backspace_count (field_row_of df sid tt field grp)
   \<and> backspace_count (field_row_of df sid tt field grp) \<le> n_keydowns (field_row_of df sid tt field grp)
   \<and> backspace_rate (field_row_of df sid tt field grp)
       = (if n_keydowns (field_row_of df sid tt field grp) = 0 then 0
          else real_of_int (backspace_count (field_row_of df sid tt field grp))
               / real_of_int (n_keydowns (field_row_of df sid tt field grp)))"
  by (simp add: count_backspace_le count_backspace_nonneg backspace_rate_formula)

lemma count_backspace_card:
  "count_backspace grp
     = int (card {i. i < length grp \<and> event_type (grp ! i) = ''keydown'' \<and> key (grp ! i) = ''Backspace''})"
  by (simp add: count_backspace_def length_filter_conv_card)

lemma count_keydowns_card:
  "count_keydowns grp = int (card {i. i < length grp \<and> event_type (grp ! i) = ''keydown''})"
  by (simp add: count_keydowns_def length_filter_conv_card)

lemma test_group_sort_df:
  "count_keydowns (test_group (sort_values_df df) (sid, tt))
     = count_keydowns (filter (\<lambda>e. session_id e = sid \<and> test_type e = tt) df)"
  "count_backspace (test_group (sort_values_df df) (sid, tt))
     = count_backspace (filter (\<lambda>e. session_id e = sid \<and> test_type e = tt) df)"
  by (simp_all add: test_group_def test_key_def count_filter_sort_df)

lemma session_group_sort_df:
  "count_keydowns (session_group (sort_values_df df) sid)
     = count_keydowns (filter (\<lambda>e. session_id e = sid) df)"
  "count_backspace (session_group (sort_values_df df) sid)
     = count_backspace (filter (\<lambda>e. session_id e = sid) df)"
  by (simp_all add: session_group_def count_filter_sort_df)

text \<open>
  C6. In every row of both tables, \<open>0 \<le> backspace_count \<le> n_keydowns\<close>, and
  \<open>backspace_rate\<close> is \<open>backspace_count / n_keydowns\<close>, or 0 when \<open>n_keydowns\<close> is 0.
  The \<open>backspace_count\<close> of a row is the number of keydown events with the key
  \<open>Backspace\<close> among the events of the row's group (of its session and test, of its session,
  or of its session, test and field), and \<open>n_keydowns\<close> the number of keydown events there.
  Scenario F gives \<open>backspace_rate = 0.2\<close>.
\<close>

theorem backspace_count_and_rate:
  "(\<forall>r\<in>set (compute_keystroke_metrics df).
      0 \<le> backspace_count r \<and> backspace_count r \<le> n_keydowns r \<and>
      backspace_rate r = (if n_keydowns r = 0 then 0
                          else real_of_int (backspace_count r) / real_of_int (n_keydowns r)))
   \<and> (\<forall>r\<in>set (compute_keystroke_metrics_by_field df).
      0 \<le> backspace_count r \<and> backspace_count r \<le> n_keydowns r \<and>
      backspace_rate r = (if n_keydowns r = 0 then 0
                          else real_of_int (backspace_count r) / real_of_int (n_keydowns r)))
   \<and> (\<forall>r\<in>set (per_test_rows (sort_values_df df)).
      backspace_count r = count_backspace
        (filter (\<lambda>e. session_id e = row_session_id r \<and> test_type e = row_test_type r) df) \<and>
      n_keydowns r = count_keydowns
        (filter (\<lambda>e. session_id e = row_session_id r \<and> test_type e = row_test_type r) df))
   \<and> (\<forall>r\<in>set (overall_rows (sort_values_df df)).
      backspace_count r = count_backspace (filter (\<lambda>e. session_id e = row_session_id r) df) \<and>
      n_keydowns r = count_keydowns (filter (\<lambda>e. session_id e = row_session_id r) df))
   \<and> (\<forall>r\<in>set (compute_keystroke_metrics_by_field df).
      backspace_count r = count_backspace
        (filter (\<lambda>e. session_id e = row_session_id r \<and> test_type e = row_test_type r
                      \<and> field_name e = Some (row_field_name r)) df) \<and>
      n_keydowns r = count_keydowns
        (filter (\<lambda>e. session_id e = row_session_id r \<and> test_type e = row_test_type r
                      \<and> field_name e = Some (row_field_name r)) df))
   \<and> count_backspace grp
       = int (card {i. i < length grp \<and> event_type (grp ! i) = ''keydown''
                        \<and> key (grp ! i) = ''Backspace''})
   \<and> count_keydowns grp = int (card {i. i < length grp \<and> event_type (grp ! i) = ''keydown''})"
proof (intro conjI ballI)
  fix r assume "r \<in> set (compute_keystroke_metrics df)"
  then obtain sid tt grp khd_s iki_s where r: "r = agg_row sid tt grp khd_s iki_s"
    by (rule metrics_rows_elem)
  show "0 \<le> backspace_count r" "backspace_count r \<le> n_keydowns r"
    "backspace_rate r = (if n_keydowns r = 0 then 0
        else real_of_int (backspace_count r) / real_of_int (n_keydowns r))"
    unfolding r using backspace_row_agg [of sid tt grp khd_s iki_s] by blast+
next
  fix r assume "r \<in> set (compute_keystroke_metrics_by_field df)"
  then obtain sid tt field
    where r: "r = field_row_of df sid tt field (field_group df (sid, tt, field))"
    by (rule field_rows_elem)
  show "0 \<le> backspace_count r" "backspace_count r \<le> n_keydowns r"
    "backspace_rate r = (if n_keydowns r = 0 then 0
        else real_of_int (backspace_count r) / real_of_int (n_keydowns r))"
    unfolding r
    using backspace_row_field [of df sid tt field "field_group df (sid, tt, field)"] by blast+
  show "backspace_count r = count_backspace
        (filter (\<lambda>e. session_id e = row_session_id r \<and> test_type e = row_test_type r
                      \<and> field_name e = Some (row_field_name r)) df)"
    "n_keydowns r = count_keydowns
        (filter (\<lambda>e. session_id e = row_session_id r \<and> test_type e = row_test_type r
                      \<and> field_name e = Some (row_field_name r)) df)"
    unfolding r by (simp_all add: field_group_def)
next
  fix r assume "r \<in> set (per_test_rows (sort_values_df df))"
  then obtain sid tt where r: "r = agg_row sid tt (test_group (sort_values_df df) (sid, tt))
      (khd_s_of (khd_df (sort_values_df df)) sid tt) (iki_s_of (iki_df (sort_values_df df)) sid tt)"
    by (rule per_test_rows_elem)
  show "backspace_count r = count_backspace
        (filter (\<lambda>e. session_id e = row_session_id r \<and> test_type e = row_test_type r) df)"
    "n_keydowns r = count_keydowns
        (filter (\<lambda>e. session_id e = row_session_id r \<and> test_type e = row_test_type r) df)"
    unfolding r by (simp_all add: test_group_sort_df)
next
  fix r assume "r \<in> set (overall_rows (sort_values_df df))"
  then obtain sid where r: "r = agg_row sid ''overall'' (session_group (sort_values_df df) sid)
      (khd_vals (session_group (sort_values_df df) sid))
      (iki_vals (session_group (sort_values_df df) sid))"
    by (rule overall_rows_elem)
  show "backspace_count r = count_backspace (filter (\<lambda>e. session_id e = row_session_id r) df)"
    "n_keydowns r = count_keydowns (filter (\<lambda>e. session_id e = row_session_id r) df)"
    unfolding r by (simp_all add: session_group_sort_df)
next
  show "count_backspace grp
       = int (card {i. i < length grp \<and> event_type (grp ! i) = ''keydown''
                        \<and> key (grp ! i) = ''Backspace''})"
    by (rule count_backspace_card)
  show "count_keydowns grp = int (card {i. i < length grp \<and> event_type (grp ! i) = ''keydown''})"
    by (rule count_keydowns_card)
qed

theorem backspace_count_and_rate_witness:
  "compute_keystroke_metrics scenario_F \<noteq> []
   \<and> list_all (\<lambda>r. n_keydowns r = 5 \<and> backspace_count r = 1 \<and> backspace_rate r = 1 / 5)
       (compute_keystroke_metrics scenario_F)
   \<and> compute_keystroke_metrics_by_field scenario_F \<noteq> []
   \<and> list_all (\<lambda>r. n_keydowns r = 5 \<and> backspace_count r = 1 \<and> backspace_rate r = 1 / 5)
       (compute_keystroke_metrics_by_field scenario_F)"
proof -
  note inst = backspace_count_and_rate [of scenario_F "[]"]
  have "backspace_rate r = 1 / 5"
    if "r \<in> set (compute_keystroke_metrics scenario_F)" for r
  proof -
    have "n_keydowns r = 5 \<and> backspace_count r = 1"
      using that scenario_F_metrics(2) by (simp add: list_all_iff)
    moreover have "backspace_rate r = (if n_keydowns r = 0 then 0
        else real_of_int (backspace_count r) / real_of_int (n_keydowns r))"
      using that inst by blast
    ultimately show ?thesis by simp
  qed
  moreover have "backspace_rate r = 1 / 5"
    if "r \<in> set (compute_keystroke_metrics_by_field scenario_F)" for r
  proof -
    have "n_keydowns r = 5 \<and> backspace_count r = 1"
      using that scenario_F_fields(2) by (simp add: list_all_iff)
    moreover have "backspace_rate r = (if n_keydowns r = 0 then 0
        else real_of_int (backspace_count r) / real_of_int (n_keydowns r))"
      using that inst by blast
    ultimately show ?thesis by simp
  qed
  ultimately show ?thesis
    using scenario_F_metrics scenario_F_fields by (simp add: list_all_iff)
qed

section \<open>Degenerate groups\<close>

text \<open>The samples of a per-test row are those of its own group.\<close>

lemma filter_tagged_concat:
  assumes "distinct ks" "k \<in> set ks" "\<And>k' y. tag (mk k' y) = k'"
  shows "filter (\<lambda>x. tag x = k) (concat (map (\<lambda>k'. map (mk k') (g k')) ks)) = map (mk k) (g k)"
  using assms(1,2)
proof (induction ks)
  case Nil
  then show ?case by simp
next
  case (Cons a ks)
  have drop: "filter (\<lambda>x. tag x = k) (map (mk k') (g k')) = []" if "k' \<noteq> k" for k'
    using that assms(3) by (simp add: filter_empty_conv)
  have keep: "filter (\<lambda>x. tag x = k) (map (mk k) (g k)) = map (mk k) (g k)"
    using assms(3) by (simp add: filter_id_conv)
  have none: "filter (\<lambda>x. tag x = k) (concat (map (\<lambda>k'. map (mk k') (g k')) ks)) = []"
    if "k \<notin> set ks"
    using that assms(3) by (auto simp: filter_empty_conv)
  show ?case
  proof (cases "a = k")
    case True
    with Cons.prems have "k \<notin> set ks" by simp
    with True keep none show ?thesis by simp
  next
    case False
    with Cons.prems have "k \<in> set ks" "distinct ks" by auto
    with Cons.IH drop [of a] False show ?thesis by simp
  qed
qed

lemma distinct_groupby_test_keys: "distinct (groupby_test_keys df)"
  by (simp add: groupby_test_keys_def)

lemma khd_s_of_khd_df:
  assumes "(sid, tt) \<in> set (groupby_test_keys df)"
  shows "khd_s_of (khd_df df) sid tt
       = khd_vals (sort_values_pressed_at (test_group df (sid, tt)))"
proof -
  let ?mk = "\<lambda>k p. (fst k, snd k, snd p, fst p) :: string \<times> string \<times> int \<times> string"
  let ?g = "\<lambda>k. khd_pairs (sort_values_pressed_at (test_group df k))"
  have df: "khd_df df = concat (map (\<lambda>k. map (?mk k) (?g k)) (groupby_test_keys df))"
    unfolding khd_df_def
    by (rule arg_cong [where f = concat], rule map_cong) (auto simp: case_prod_beta)
  have flt: "filter (\<lambda>(s, t, khd_ms, k). s = sid \<and> t = tt) xs
      = filter (\<lambda>x. (fst x, fst (snd x)) = (sid, tt)) xs" for xs :: "(string \<times> string \<times> int \<times> string) list"
    by (rule filter_cong) auto
  have "filter (\<lambda>x. (fst x, fst (snd x)) = (sid, tt)) (khd_df df) = map (?mk (sid, tt)) (?g (sid, tt))"
    unfolding df
    by (rule filter_tagged_concat [OF distinct_groupby_test_keys assms]) simp
  then show ?thesis
    unfolding khd_s_of_def flt khd_vals_def by (simp add: comp_def case_prod_beta)
qed

lemma iki_s_of_iki_df:
  assumes "(sid, tt) \<in> set (groupby_test_keys df)"
  shows "iki_s_of (iki_df df) sid tt
       = iki_vals (sort_values_pressed_at (test_group df (sid, tt)))"
proof -
  let ?mk = "\<lambda>k x. (fst k, snd k, x) :: string \<times> string \<times> int"
  let ?g = "\<lambda>k. iki_vals (sort_values_pressed_at (test_group df k))"
  have df: "iki_df df = concat (map (\<lambda>k. map (?mk k) (?g k)) (groupby_test_keys df))"
    unfolding iki_df_def
    by (rule arg_cong [where f = concat], rule map_cong) (auto simp: case_prod_beta)
  have flt: "filter (\<lambda>(s, t, iki_ms). s = sid \<and> t = tt) xs
      = filter (\<lambda>x. (fst x, fst (snd x)) = (sid, tt)) xs" for xs :: "(string \<times> string \<times> int) list"
    by (rule filter_cong) auto
  have "filter (\<lambda>x. (fst x, fst (snd x)) = (sid, tt)) (iki_df df) = map (?mk (sid, tt)) (?g (sid, tt))"
    unfolding df
    by (rule filter_tagged_concat [OF distinct_groupby_test_keys assms]) simp
  then show ?thesis
    unfolding iki_s_of_def flt by (simp add: comp_def case_prod_beta)
qed

lemma khd_pairs_short: "length grp < 2 \<Longrightarrow> khd_pairs grp = []"
  unfolding khd_pairs_def by (subst khd_loop.simps) simp

lemma iki_vals_short:
  assumes "length grp < 2"
  shows "iki_vals grp = []"
proof -
  have "\<not> iki_kept grp j i" for i j
    using assms unfolding iki_kept_def iki_match_def pending_keyup_def by auto
  then show ?thesis by (simp add: iki_vals_spec iki_spec_def)
qed

lemma khd_vals_short: "length grp < 2 \<Longrightarrow> khd_vals grp = []"
  by (simp add: khd_vals_def khd_pairs_short)

lemma agg_row_stats:
  "mean_khd_ms (agg_row sid tt grp khd_s iki_s) = (if khd_s = [] then None else Some (mean khd_s))"
  "sd_khd_ms (agg_row sid tt grp khd_s iki_s) = (if khd_s = [] then None else pandas_std khd_s)"
  "cv_khd (agg_row sid tt grp khd_s iki_s)
     = (if khd_s \<noteq> [] \<and> mean khd_s > 0 then nan_div (pandas_std khd_s) (mean khd_s) else None)"
  "mean_iki_ms (agg_row sid tt grp khd_s iki_s) = (if iki_s = [] then None else Some (mean iki_s))"
  "sd_iki_ms (agg_row sid tt grp khd_s iki_s) = (if iki_s = [] then None else pandas_std iki_s)"
  "cv_iki (agg_row sid tt grp khd_s iki_s)
     = (if iki_s \<noteq> [] \<and> mean iki_s > 0 then nan_div (pandas_std iki_s) (mean iki_s) else None)"
  "pause_count_200ms (agg_row sid tt grp khd_s iki_s) = pause_count 200 iki_s"
  "pause_count_500ms (agg_row sid tt grp khd_s iki_s) = pause_count 500 iki_s"
  by (simp_all add: agg_row_def)

lemma field_row_stats:
  "mean_khd_ms (field_row_of df sid tt field grp)
     = (let khd_v = khd_vals (sort_values_pressed_at grp)
        in if khd_v = [] then None else Some (mean khd_v))"
  "sd_khd_ms (field_row_of df sid tt field grp)
     = (let khd_v = khd_vals (sort_values_pressed_at grp)
        in if khd_v = [] then None else numpy_std khd_v)"
  "cv_khd (field_row_of df sid tt field grp)
     = (let khd_v = khd_vals (sort_values_pressed_at grp)
        in if khd_v \<noteq> [] \<and> mean khd_v > 0 then nan_div (numpy_std khd_v) (mean khd_v) else None)"
  "mean_iki_ms (field_row_of df sid tt field grp)
     = (let iki_arr = iki_vals (sort_values_pressed_at grp)
        in if iki_arr = [] then None else Some (mean iki_arr))"
  "sd_iki_ms (field_row_of df sid tt field grp)
     = (let iki_arr = iki_vals (sort_values_pressed_at grp)
        in if iki_arr = [] then None else numpy_std iki_arr)"
  "cv_iki (field_row_of df sid tt field grp)
     = (let iki_arr = iki_vals (sort_values_pressed_at grp)
        in if iki_arr \<noteq> [] \<and> mean iki_arr > 0 then nan_div (numpy_std iki_arr) (mean iki_arr) else None)"
  "pause_count_200ms (field_row_of df sid tt field grp)
     = pause_count 200 (iki_vals (sort_values_pressed_at grp))"
  "pause_count_500ms (field_row_of df sid tt field grp)
     = pause_count 500 (iki_vals (sort_values_pressed_at grp))"
  by (simp_all add: field_row_of_def Let_def)

lemma agg_row_short:
  assumes "length grp < 2" "khd_s = []" "iki_s = []"
  shows "stats_absent (agg_row sid tt grp khd_s iki_s)"
    "duration_sec (agg_row sid tt grp khd_s iki_s) = 0"
    "cpm (agg_row sid tt grp khd_s iki_s) = None"
  using assms
  by (simp_all add: stats_absent_def agg_row_stats pause_count_def duration_ms_short cpm_of_def)

lemma field_row_short:
  assumes "length grp < 2"
  shows "stats_absent (field_row_of df sid tt field grp)"
    "duration_sec (field_row_of df sid tt field grp) = 0"
    "cpm (field_row_of df sid tt field grp) = None"
  using assms
  by (simp_all add: stats_absent_def field_row_stats pause_count_def duration_ms_short cpm_of_def
      khd_vals_short iki_vals_short)

lemma per_test_row_short:
  assumes "r \<in> set (per_test_rows df)" "n_events r < 2"
  shows "stats_absent r \<and> duration_sec r = 0 \<and> cpm r = None"
proof -
  from assms(1) obtain sid tt where k: "(sid, tt) \<in> set (groupby_test_keys df)"
    and r: "r = agg_row sid tt (test_group df (sid, tt))
               (khd_s_of (khd_df df) sid tt) (iki_s_of (iki_df df) sid tt)"
    by (rule per_test_rows_elem)
  from assms(2) have len: "length (test_group df (sid, tt)) < 2"
    unfolding r by simp
  then have h: "khd_s_of (khd_df df) sid tt = []" "iki_s_of (iki_df df) sid tt = []"
    by (simp_all add: khd_s_of_khd_df [OF k] iki_s_of_iki_df [OF k] khd_vals_short iki_vals_short)
  show ?thesis
    unfolding r by (intro conjI agg_row_short len h)
qed

lemma overall_row_short:
  assumes "r \<in> set (overall_rows df)" "n_events r < 2"
  shows "stats_absent r \<and> duration_sec r = 0 \<and> cpm r = None"
proof -
  from assms(1) obtain sid where r: "r = agg_row sid ''overall'' (session_group df sid)
               (khd_vals (session_group df sid)) (iki_vals (session_group df sid))"
    by (rule overall_rows_elem)
  from assms(2) have len: "length (session_group df sid) < 2"
    unfolding r by simp
  then have h: "khd_vals (session_group df sid) = []" "iki_vals (session_group df sid) = []"
    by (simp_all add: khd_vals_short iki_vals_short)
  show ?thesis
    unfolding r by (intro conjI agg_row_short len h)
qed

lemma cpm_absent_iff_agg:
  "cpm (agg_row sid tt grp khd_s iki_s) = None
     \<longleftrightarrow> duration_sec (agg_row sid tt grp khd_s iki_s) = 0"
  using duration_ms_nonneg [of grp] by (simp add: cpm_of_def)

lemma cpm_absent_iff_field:
  "cpm (field_row_of df sid tt field grp) = None
     \<longleftrightarrow> duration_sec (field_row_of df sid tt field grp) = 0"
  using duration_ms_nonneg [of grp] by (simp add: cpm_of_def)

text \<open>
  C4 (as amended). A degenerate group is not an error. A group of fewer than two events
  produces no pair of either kind and has duration 0; every row of either table with
  fewer than two events has \<open>duration_sec = 0\<close>, all six statistics of the hold durations
  and of the intervals absent, both pause counts 0 and \<open>cpm\<close> absent. In any row, the
  mean, sd and cv of the hold durations are absent when there is no hold-duration sample,
  and those of the intervals when there is no interval sample; the counts are always
  defined, and are 0 for a group without events, as are the duration and the backspace
  rate. In every row of either table \<open>cpm\<close> is absent exactly when \<open>duration_sec\<close> is 0,
  whether or not the group has paired samples: a group of two or more events at different
  times has a duration and a \<open>cpm\<close> even when it has no valid pair.
\<close>

theorem degenerate_group:
  "(length grp < 2 \<longrightarrow> khd_pairs grp = [] \<and> iki_vals grp = [] \<and> duration_ms grp = 0)
   \<and> (\<forall>r\<in>set (compute_keystroke_metrics df).
        n_events r < 2 \<longrightarrow> stats_absent r \<and> duration_sec r = 0 \<and> cpm r = None)
   \<and> (\<forall>r\<in>set (compute_keystroke_metrics_by_field df).
        n_events r < 2 \<longrightarrow> stats_absent r \<and> duration_sec r = 0 \<and> cpm r = None)
   \<and> (khd_s = [] \<longrightarrow>
        mean_khd_ms (agg_row sid tt grp khd_s iki_s) = None \<and>
        sd_khd_ms (agg_row sid tt grp khd_s iki_s) = None \<and>
        cv_khd (agg_row sid tt grp khd_s iki_s) = None)
   \<and> (iki_s = [] \<longrightarrow>
        mean_iki_ms (agg_row sid tt grp khd_s iki_s) = None \<and>
        sd_iki_ms (agg_row sid tt grp khd_s iki_s) = None \<and>
        cv_iki (agg_row sid tt grp khd_s iki_s) = None \<and>
        pause_count_200ms (agg_row sid tt grp khd_s iki_s) = 0 \<and>
        pause_count_500ms (agg_row sid tt grp khd_s iki_s) = 0)
   \<and> (khd_vals (sort_values_pressed_at grp) = [] \<longrightarrow>
        mean_khd_ms (field_row_of df sid tt field grp) = None \<and>
        sd_khd_ms (field_row_of df sid tt field grp) = None \<and>
        cv_khd (field_row_of df sid tt field grp) = None)
   \<and> (iki_vals (sort_values_pressed_at grp) = [] \<longrightarrow>
        mean_iki_ms (field_row_of df sid tt field grp) = None \<and>
        sd_iki_ms (field_row_of df sid tt field grp) = None \<and>
        cv_iki (field_row_of df sid tt field grp) = None \<and>
        pause_count_200ms (field_row_of df sid tt field grp) = 0 \<and>
        pause_count_500ms (field_row_of df sid tt field grp) = 0)
   \<and> (grp = [] \<longrightarrow>
        n_events (agg_row sid tt grp khd_s iki_s) = 0 \<and>
        n_keydowns (agg_row sid tt grp khd_s iki_s) = 0 \<and>
        backspace_count (agg_row sid tt grp khd_s iki_s) = 0 \<and>
        backspace_rate (agg_row sid tt grp khd_s iki_s) = 0 \<and>
        duration_sec (agg_row sid tt grp khd_s iki_s) = 0)
   \<and> (\<forall>r\<in>set (compute_keystroke_metrics df). cpm r = None \<longleftrightarrow> duration_sec r = 0)
   \<and> (\<forall>r\<in>set (compute_keystroke_metrics_by_field df). cpm r = None \<longleftrightarrow> duration_sec r = 0)
   \<and> (cpm (agg_row sid tt grp khd_s iki_s) = None \<longleftrightarrow> duration_ms grp = 0)
   \<and> (cpm (field_row_of df sid tt field grp) = None \<longleftrightarrow> duration_ms grp = 0)"
proof (intro conjI ballI impI)
  assume "length grp < 2"
  then show "khd_pairs grp = []" "iki_vals grp = []" "duration_ms grp = 0"
    by (simp_all add: khd_pairs_short iki_vals_short duration_ms_short)
next
  fix r assume r: "r \<in> set (compute_keystroke_metrics df)" and n: "n_events r < 2"
  from r have "r \<in> set (per_test_rows (sort_values_df df)) \<or> r \<in> set (overall_rows (sort_values_df df))"
    by (simp add: compute_keystroke_metrics_def Let_def)
  then have "stats_absent r \<and> duration_sec r = 0 \<and> cpm r = None"
  proof
    assume "r \<in> set (per_test_rows (sort_values_df df))"
    then show ?thesis using n by (rule per_test_row_short)
  next
    assume "r \<in> set (overall_rows (sort_values_df df))"
    then show ?thesis using n by (rule overall_row_short)
  qed
  then show "stats_absent r" "duration_sec r = 0" "cpm r = None" by simp_all
next
  fix r assume r0: "r \<in> set (compute_keystroke_metrics_by_field df)" and n: "n_events r < 2"
  from r0 obtain sid tt field
    where r: "r = field_row_of df sid tt field (field_group df (sid, tt, field))"
    by (rule field_rows_elem)
  from n have "length (field_group df (sid, tt, field)) < 2"
    unfolding r by simp
  then show "stats_absent r" "duration_sec r = 0" "cpm r = None"
    unfolding r by (rule field_row_short)+
next
  assume "khd_s = []"
  then show "mean_khd_ms (agg_row sid tt grp khd_s iki_s) = None"
    "sd_khd_ms (agg_row sid tt grp khd_s iki_s) = None"
    "cv_khd (agg_row sid tt grp khd_s iki_s) = None"
    by (simp_all add: agg_row_stats)
next
  assume "iki_s = []"
  then show "mean_iki_ms (agg_row sid tt grp khd_s iki_s) = None"
    "sd_iki_ms (agg_row sid tt grp khd_s iki_s) = None"
    "cv_iki (agg_row sid tt grp khd_s iki_s) = None"
    "pause_count_200ms (agg_row sid tt grp khd_s iki_s) = 0"
    "pause_count_500ms (agg_row sid tt grp khd_s iki_s) = 0"
    by (simp_all add: agg_row_stats pause_count_def)
next
  assume "khd_vals (sort_values_pressed_at grp) = []"
  then show "mean_khd_ms (field_row_of df sid tt field grp) = None"
    "sd_khd_ms (field_row_of df sid tt field grp) = None"
    "cv_khd (field_row_of df sid tt field grp) = None"
    by (simp_all add: field_row_stats)
next
  assume "iki_vals (sort_values_pressed_at grp) = []"
  then show "mean_iki_ms (field_row_of df sid tt field grp) = None"
    "sd_iki_ms (field_row_of df sid tt field grp) = None"
    "cv_iki (field_row_of df sid tt field grp) = None"
    "pause_count_200ms (field_row_of df sid tt field grp) = 0"
    "pause_count_500ms (field_row_of df sid tt field grp) = 0"
    by (simp_all add: field_row_stats pause_count_def)
next
  assume "grp = []"
  then show "n_events (agg_row sid tt grp khd_s iki_s) = 0"
    "n_keydowns (agg_row sid tt grp khd_s iki_s) = 0"
    "backspace_count (agg_row sid tt grp khd_s iki_s) = 0"
    "backspace_rate (agg_row sid tt grp khd_s iki_s) = 0"
    "duration_sec (agg_row sid tt grp khd_s iki_s) = 0"
    by (simp_all add: count_keydowns_def count_backspace_def backspace_rate_of_def duration_ms_def)
next
  fix r assume "r \<in> set (compute_keystroke_metrics df)"
  then obtain sid' tt' grp' khd_s' iki_s' where r: "r = agg_row sid' tt' grp' khd_s' iki_s'"
    by (rule metrics_rows_elem)
  show "cpm r = None \<longleftrightarrow> duration_sec r = 0"
    unfolding r by (rule cpm_absent_iff_agg)
next
  fix r assume "r \<in> set (compute_keystroke_metrics_by_field df)"
  then obtain sid' tt' field'
    where r: "r = field_row_of df sid' tt' field' (field_group df (sid', tt', field'))"
    by (rule field_rows_elem)
  show "cpm r = None \<longleftrightarrow> duration_sec r = 0"
    unfolding r by (rule cpm_absent_iff_field)
next
  show "cpm (agg_row sid tt grp khd_s iki_s) = None \<longleftrightarrow> duration_ms grp = 0"
    using duration_ms_nonneg [of grp] by (simp add: cpm_of_def)
  show "cpm (field_row_of df sid tt field grp) = None \<longleftrightarrow> duration_ms grp = 0"
    using duration_ms_nonneg [of grp] by (simp add: cpm_of_def)
qed

lemma ex_downs_groups:
  "groupby_test_keys (sort_values_df ex_downs) = [(''s1'', ''free'')]"
  "pd_unique (map session_id (sort_values_df ex_downs)) = [''s1'']"
  "length (test_group (sort_values_df ex_downs) (''s1'', ''free'')) = 3"
  "length (session_group (sort_values_df ex_downs) ''s1'') = 3"
  "count_keydowns (test_group (sort_values_df ex_downs) (''s1'', ''free'')) = 3"
  "count_backspace (test_group (sort_values_df ex_downs) (''s1'', ''free'')) = 0"
  "duration_ms (test_group (sort_values_df ex_downs) (''s1'', ''free'')) = 25"
  "count_keydowns (session_group (sort_values_df ex_downs) ''s1'') = 3"
  "count_backspace (session_group (sort_values_df ex_downs) ''s1'') = 0"
  "duration_ms (session_group (sort_values_df ex_downs) ''s1'') = 25"
  "khd_s_of (khd_df (sort_values_df ex_downs)) ''s1'' ''free'' = []"
  "iki_s_of (iki_df (sort_values_df ex_downs)) ''s1'' ''free'' = []"
  "khd_vals (session_group (sort_values_df ex_downs) ''s1'') = []"
  "iki_vals (session_group (sort_values_df ex_downs) ''s1'') = []"
  by code_simp+

lemma ex_keyups_groups:
  "groupby_test_keys (sort_values_df ex_keyups) = [(''s1'', ''free'')]"
  "pd_unique (map session_id (sort_values_df ex_keyups)) = [''s1'']"
  "count_keydowns (test_group (sort_values_df ex_keyups) (''s1'', ''free'')) = 0"
  "count_backspace (test_group (sort_values_df ex_keyups) (''s1'', ''free'')) = 0"
  "duration_ms (test_group (sort_values_df ex_keyups) (''s1'', ''free'')) = 1000"
  "count_keydowns (session_group (sort_values_df ex_keyups) ''s1'') = 0"
  "count_backspace (session_group (sort_values_df ex_keyups) ''s1'') = 0"
  "duration_ms (session_group (sort_values_df ex_keyups) ''s1'') = 1000"
  by code_simp+

lemma ex_downs_rows:
  "map mean_khd_ms (compute_keystroke_metrics ex_downs) = [None, None]"
  "map mean_iki_ms (compute_keystroke_metrics ex_downs) = [None, None]"
  "map n_events (compute_keystroke_metrics ex_downs) = [3, 3]"
  "map duration_sec (compute_keystroke_metrics ex_downs) = [25 / 1000, 25 / 1000]"
  "map cpm (compute_keystroke_metrics ex_downs) = [Some 7200, Some 7200]"
  by (simp_all add: compute_keystroke_metrics_def per_test_rows_def overall_rows_def Let_def
      ex_downs_groups agg_row_stats cpm_of_def)

lemma ex_keyups_rows:
  "map n_keydowns (compute_keystroke_metrics ex_keyups) = [0, 0]"
  "map duration_sec (compute_keystroke_metrics ex_keyups) = [1, 1]"
  "map cpm (compute_keystroke_metrics ex_keyups) = [Some 0, Some 0]"
  by (simp_all add: compute_keystroke_metrics_def per_test_rows_def overall_rows_def Let_def
      ex_keyups_groups cpm_of_def)

text \<open>
  C4 as stated fails. Three keydowns at 0, 10 and 25 ms form a group without any valid
  pair: its rows have the statistics of both kinds absent, and yet a duration of 25 ms
  and \<open>cpm = 7200\<close>. Two keyups one second apart have no keydown at all, and \<open>cpm = 0\<close>,
  not absent.
\<close>

theorem no_pairs_cpm_counterexample:
  "map mean_khd_ms (compute_keystroke_metrics ex_downs) = [None, None]
   \<and> map mean_iki_ms (compute_keystroke_metrics ex_downs) = [None, None]
   \<and> map n_events (compute_keystroke_metrics ex_downs) = [3, 3]
   \<and> map duration_sec (compute_keystroke_metrics ex_downs) = [25 / 1000, 25 / 1000]
   \<and> map cpm (compute_keystroke_metrics ex_downs) = [Some 7200, Some 7200]
   \<and> map n_keydowns (compute_keystroke_metrics ex_keyups) = [0, 0]
   \<and> map duration_sec (compute_keystroke_metrics ex_keyups) = [1, 1]
   \<and> map cpm (compute_keystroke_metrics ex_keyups) = [Some 0, Some 0]"
  using ex_downs_rows ex_keyups_rows by blast

lemma scenario_D_keys:
  "groupby_test_keys (sort_values_df scenario_D) = [(''s1'', ''timed'')]"
  "pd_unique (map session_id (sort_values_df scenario_D)) = [''s1'']"
  "groupby_field_keys scenario_D = [(''s1'', ''timed'', (code_points ''q2''))]"
  "length (test_group (sort_values_df scenario_D) (''s1'', ''timed'')) = 1"
  "length (session_group (sort_values_df scenario_D) ''s1'') = 1"
  "length (field_group scenario_D (''s1'', ''timed'', (code_points ''q2''))) = 1"
  by code_simp+

lemma scenario_D_rows:
  "compute_keystroke_metrics scenario_D \<noteq> []"
  "list_all (\<lambda>r. n_events r = 1) (compute_keystroke_metrics scenario_D)"
  "compute_keystroke_metrics_by_field scenario_D \<noteq> []"
  "list_all (\<lambda>r. n_events r = 1) (compute_keystroke_metrics_by_field scenario_D)"
  by (simp_all add: compute_keystroke_metrics_def per_test_rows_def overall_rows_def
      compute_keystroke_metrics_by_field_def Let_def scenario_D_keys)

theorem degenerate_group_witness:
  "compute_keystroke_metrics scenario_D \<noteq> []
   \<and> list_all (\<lambda>r. n_events r = 1 \<and> stats_absent r \<and> duration_sec r = 0 \<and> cpm r = None)
       (compute_keystroke_metrics scenario_D)
   \<and> compute_keystroke_metrics_by_field scenario_D \<noteq> []
   \<and> list_all (\<lambda>r. n_events r = 1 \<and> stats_absent r \<and> duration_sec r = 0 \<and> cpm r = None)
       (compute_keystroke_metrics_by_field scenario_D)
   \<and> length scenario_D = 1 \<and> khd_pairs scenario_D = [] \<and> iki_vals scenario_D = []
   \<and> duration_ms scenario_D = 0
   \<and> khd_vals ex_downs = [] \<and> iki_vals ex_downs = []
   \<and> mean_khd_ms (agg_row ''s1'' ''free'' ex_downs (khd_vals ex_downs) (iki_vals ex_downs)) = None
   \<and> cv_iki (agg_row ''s1'' ''free'' ex_downs (khd_vals ex_downs) (iki_vals ex_downs)) = None
   \<and> n_events (agg_row ''s1'' ''free'' [] [] []) = 0
   \<and> backspace_rate (agg_row ''s1'' ''free'' [] [] []) = 0
   \<and> map duration_sec (compute_keystroke_metrics ex_downs) = [25 / 1000, 25 / 1000]
   \<and> map cpm (compute_keystroke_metrics ex_downs) = [Some 7200, Some 7200]
   \<and> list_all (\<lambda>r. duration_sec r \<noteq> 0 \<and> cpm r \<noteq> None) (compute_keystroke_metrics ex_downs)
   \<and> duration_ms ex_downs = 25
   \<and> cpm (agg_row ''s1'' ''free'' ex_downs (khd_vals ex_downs) (iki_vals ex_downs)) = Some 7200"
proof -
  note inst = degenerate_group [where grp = scenario_D and df = scenario_D]
  have a: "stats_absent r \<and> duration_sec r = 0 \<and> cpm r = None"
    if "r \<in> set (compute_keystroke_metrics scenario_D)" for r
  proof -
    have "n_events r < 2"
      using that scenario_D_rows(2) by (simp add: list_all_iff)
    with that inst [THEN conjunct2, THEN conjunct1] show ?thesis by (simp only: )
  qed
  have b: "stats_absent r \<and> duration_sec r = 0 \<and> cpm r = None"
    if "r \<in> set (compute_keystroke_metrics_by_field scenario_D)" for r
  proof -
    have "n_events r < 2"
      using that scenario_D_rows(4) by (simp add: list_all_iff)
    with that inst [THEN conjunct2, THEN conjunct2, THEN conjunct1] show ?thesis by (simp only: )
  qed
  have A: "list_all (\<lambda>r. n_events r = 1 \<and> stats_absent r \<and> duration_sec r = 0 \<and> cpm r = None)
       (compute_keystroke_metrics scenario_D)"
    using a scenario_D_rows(2) by (simp add: list_all_iff)
  have B: "list_all (\<lambda>r. n_events r = 1 \<and> stats_absent r \<and> duration_sec r = 0 \<and> cpm r = None)
       (compute_keystroke_metrics_by_field scenario_D)"
    using b scenario_D_rows(4) by (simp add: list_all_iff)
  have len: "length scenario_D = 1"
    by (simp add: scenario_D_def)
  then have "length scenario_D < 2"
    by simp
  note c = inst [THEN conjunct1, THEN mp, OF this]
  have d: "khd_vals ex_downs = []" "iki_vals ex_downs = []"
    by code_simp+
  note inst2 = degenerate_group [where df = ex_downs and grp = ex_downs
      and khd_s = "khd_vals ex_downs" and iki_s = "iki_vals ex_downs"
      and sid = "''s1''" and tt = "''free''"]
  note e1 = inst2 [THEN conjunct2, THEN conjunct2, THEN conjunct2, THEN conjunct1, THEN mp, OF d(1)]
  note e2 = inst2 [THEN conjunct2, THEN conjunct2, THEN conjunct2, THEN conjunct2, THEN conjunct1, THEN mp, OF d(2)]
  note inst3 = degenerate_group [where grp = "[]" and khd_s = "[]" and iki_s = "[]"
      and sid = "''s1''" and tt = "''free''"]
  note f = inst3 [THEN conjunct2, THEN conjunct2, THEN conjunct2, THEN conjunct2, THEN conjunct2, THEN conjunct2, THEN conjunct2, THEN conjunct1, THEN mp, OF refl]
  have g: "duration_sec r \<noteq> 0 \<and> cpm r \<noteq> None"
    if "r \<in> set (compute_keystroke_metrics ex_downs)" for r
  proof -
    have "duration_sec r \<in> set (map duration_sec (compute_keystroke_metrics ex_downs))"
      using that by simp
    then have "duration_sec r \<noteq> 0"
      unfolding ex_downs_rows by auto
    moreover have "cpm r = None \<longleftrightarrow> duration_sec r = 0"
      using that inst2 [THEN conjunct2, THEN conjunct2, THEN conjunct2, THEN conjunct2, THEN conjunct2, THEN conjunct2, THEN conjunct2, THEN conjunct2, THEN conjunct1] by (rule bspec [rotated])
    ultimately show ?thesis by simp
  qed
  have G: "list_all (\<lambda>r. duration_sec r \<noteq> 0 \<and> cpm r \<noteq> None) (compute_keystroke_metrics ex_downs)"
    using g by (simp add: list_all_iff)
  have h: "duration_ms ex_downs = 25"
    by code_simp
  then have "duration_ms ex_downs \<noteq> 0"
    by simp
  then have "cpm (agg_row ''s1'' ''free'' ex_downs (khd_vals ex_downs) (iki_vals ex_downs)) \<noteq> None"
    using inst2 [THEN conjunct2, THEN conjunct2, THEN conjunct2, THEN conjunct2, THEN conjunct2, THEN conjunct2, THEN conjunct2, THEN conjunct2, THEN conjunct2, THEN conjunct2, THEN conjunct1] by blast
  moreover have "count_keydowns ex_downs = 3" "count_backspace ex_downs = 0"
    by code_simp+
  ultimately have i: "cpm (agg_row ''s1'' ''free'' ex_downs (khd_vals ex_downs) (iki_vals ex_downs))
      = Some 7200"
    using h by (simp add: cpm_of_def)
  show ?thesis
    by (intro conjI scenario_D_rows(1) A scenario_D_rows(3) B len
        c [THEN conjunct1] c [THEN conjunct2, THEN conjunct1] c [THEN conjunct2, THEN conjunct2]
        d e1 [THEN conjunct1] e2 [THEN conjunct2, THEN conjunct2, THEN conjunct1]
        f [THEN conjunct1] f [THEN conjunct2, THEN conjunct2, THEN conjunct2, THEN conjunct1]
        ex_downs_rows(4) ex_downs_rows(5) G h i)
qed

section \<open>First-key latency\<close>

lemma map_of_keyed:
  "map_of (map (\<lambda>k. (k, f k)) ks) k = (if k \<in> set ks then Some (f k) else None)"
  by (induction ks) auto

lemma set_groupby_test_keys: "set (groupby_test_keys df) = test_key ` set df"
  by (simp add: groupby_test_keys_def)

lemma set_groupby_field_keys:
  "set (groupby_field_keys df) = field_key ` {e \<in> set df. field_name e \<noteq> None}"
  by (simp add: groupby_field_keys_def)

lemma test_group_filter:
  "test_group df (sid, tt) = filter (\<lambda>e. session_id e = sid \<and> test_type e = tt) df"
  by (simp add: test_group_def test_key_def)

lemma test_start_ms_eq:
  "test_start_ms df (sid, tt)
     = (if (sid, tt) \<in> test_key ` set df
        then Some (Min (set (map pressed_at_ms
                (filter (\<lambda>e. session_id e = sid \<and> test_type e = tt) df))))
        else None)"
  unfolding test_start_ms_def map_of_keyed set_groupby_test_keys test_group_filter ..

lemma field_key_in_group:
  assumes "(sid, tt, field) \<in> set (groupby_field_keys df)"
  obtains e where "e \<in> set df" "session_id e = sid" "test_type e = tt" "field_name e = Some field"
  using assms unfolding set_groupby_field_keys field_key_def by auto

lemma first_key_latency_field_row:
  "first_key_latency_ms (field_row_of df sid tt field grp)
     = Min (set (map pressed_at_ms grp))
       - (case test_start_ms df (sid, tt) of Some t \<Rightarrow> t
          | None \<Rightarrow> Min (set (map pressed_at_ms grp)))"
  by (simp add: field_row_of_def Let_def split: option.split)

text \<open>The latency of a row of the per-field table, and the two groups it is taken from.\<close>

lemma field_row_latency:
  assumes "r \<in> set (compute_keystroke_metrics_by_field df)"
  shows "filter (\<lambda>e. session_id e = row_session_id r \<and> test_type e = row_test_type r
             \<and> field_name e = Some (row_field_name r)) df \<noteq> []"
    and "first_key_latency_ms r
       = Min (set (map pressed_at_ms
            (filter (\<lambda>e. session_id e = row_session_id r \<and> test_type e = row_test_type r
                          \<and> field_name e = Some (row_field_name r)) df)))
         - Min (set (map pressed_at_ms
            (filter (\<lambda>e. session_id e = row_session_id r \<and> test_type e = row_test_type r) df)))"
proof -
  from assms obtain sid tt field where k: "(sid, tt, field) \<in> set (groupby_field_keys df)"
    and r: "r = field_row_of df sid tt field (field_group df (sid, tt, field))"
    by (rule field_rows_elem)
  from k obtain e where e: "e \<in> set df" "session_id e = sid" "test_type e = tt"
    "field_name e = Some field"
    by (rule field_key_in_group)
  have names: "row_session_id r = sid" "row_test_type r = tt" "row_field_name r = field"
    unfolding r by simp_all
  have grp: "field_group df (sid, tt, field)
      = filter (\<lambda>e. session_id e = sid \<and> test_type e = tt \<and> field_name e = Some field) df"
    by (simp add: field_group_def)
  from e have "e \<in> set (filter (\<lambda>e. session_id e = sid \<and> test_type e = tt
      \<and> field_name e = Some field) df)"
    by simp
  then show "filter (\<lambda>e. session_id e = row_session_id r \<and> test_type e = row_test_type r
             \<and> field_name e = Some (row_field_name r)) df \<noteq> []"
    unfolding names by (metis empty_iff empty_set)
  from e have "(sid, tt) \<in> test_key ` set df"
    by (auto simp: test_key_def image_iff)
  then have start: "test_start_ms df (sid, tt)
      = Some (Min (set (map pressed_at_ms
                (filter (\<lambda>e. session_id e = sid \<and> test_type e = tt) df))))"
    by (simp add: test_start_ms_eq)
  show "first_key_latency_ms r
       = Min (set (map pressed_at_ms
            (filter (\<lambda>e. session_id e = row_session_id r \<and> test_type e = row_test_type r
                          \<and> field_name e = Some (row_field_name r)) df)))
         - Min (set (map pressed_at_ms
            (filter (\<lambda>e. session_id e = row_session_id r \<and> test_type e = row_test_type r) df)))"
    unfolding names unfolding r first_key_latency_field_row start grp by simp
qed

lemma Min_filter_mono:
  assumes "filter (\<lambda>e. P e \<and> Q e) df \<noteq> []"
  shows "Min (set (map f (filter P df))) \<le> (Min (set (map f (filter (\<lambda>e. P e \<and> Q e) df))) :: int)"
proof (rule Min_antimono)
  show "set (map f (filter (\<lambda>e. P e \<and> Q e) df)) \<subseteq> set (map f (filter P df))"
    by auto
  show "set (map f (filter (\<lambda>e. P e \<and> Q e) df)) \<noteq> {}"
    unfolding set_empty map_is_Nil_conv by (rule assms)
  show "finite (set (map f (filter P df)))"
    by simp
qed

text \<open>
  C8. In every row of the per-field table, \<open>first_key_latency_ms\<close> is the earliest event
  time of the row's group (its session, test and field) minus the earliest event time
  among all events of the row's session and test, as it is, with no clamping. The
  per-test minimum is the entry of the map \<open>test_start_ms\<close>, computed once from the
  whole table.
\<close>

theorem first_key_latency_value:
  "(\<forall>r\<in>set (compute_keystroke_metrics_by_field df).
      filter (\<lambda>e. session_id e = row_session_id r \<and> test_type e = row_test_type r
                   \<and> field_name e = Some (row_field_name r)) df \<noteq> [] \<and>
      first_key_latency_ms r
        = Min (set (map pressed_at_ms
            (filter (\<lambda>e. session_id e = row_session_id r \<and> test_type e = row_test_type r
                          \<and> field_name e = Some (row_field_name r)) df)))
          - Min (set (map pressed_at_ms
            (filter (\<lambda>e. session_id e = row_session_id r \<and> test_type e = row_test_type r) df))))
   \<and> test_start_ms df (sid, tt)
       = (if (sid, tt) \<in> test_key ` set df
          then Some (Min (set (map pressed_at_ms
                  (filter (\<lambda>e. session_id e = sid \<and> test_type e = tt) df))))
          else None)"
  using field_row_latency [of _ df] test_start_ms_eq [of df sid tt] by blast

text \<open>
  C10. In every row of the per-field table, \<open>first_key_latency_ms\<close> is not negative: the
  events of the row's group are among the events of its session and test.
\<close>

theorem first_key_latency_nonneg:
  "\<forall>r\<in>set (compute_keystroke_metrics_by_field df). 0 \<le> first_key_latency_ms r"
proof
  fix r assume r: "r \<in> set (compute_keystroke_metrics_by_field df)"
  let ?P = "\<lambda>e. session_id e = row_session_id r \<and> test_type e = row_test_type r"
  let ?Q = "\<lambda>e. field_name e = Some (row_field_name r)"
  have ne: "filter (\<lambda>e. ?P e \<and> ?Q e) df \<noteq> []"
    using field_row_latency(1) [OF r] by (simp add: conj_assoc)
  have "Min (set (map pressed_at_ms (filter ?P df)))
      \<le> Min (set (map pressed_at_ms (filter (\<lambda>e. ?P e \<and> ?Q e) df)))"
    by (rule Min_filter_mono [OF ne])
  then show "0 \<le> first_key_latency_ms r"
    unfolding field_row_latency(2) [OF r] by (simp add: conj_assoc)
qed

lemma ex_fields_keys:
  "groupby_field_keys ex_fields
     = [(''s1'', ''free'', (code_points ''  '')), (''s1'', ''free'', (code_points ''q1'')), (''s1'', ''free'', (code_points ''q2''))]"
  "length (field_group ex_fields (''s1'', ''free'', (code_points ''q1''))) = 2"
  "length (field_group ex_fields (''s1'', ''free'', (code_points ''q2''))) = 2"
  by code_simp+

lemma ex_fields_rows:
  "compute_keystroke_metrics_by_field ex_fields
     = [field_row_of ex_fields ''s1'' ''free'' (code_points ''q1'') (field_group ex_fields (''s1'', ''free'', (code_points ''q1''))),
        field_row_of ex_fields ''s1'' ''free'' (code_points ''q2'') (field_group ex_fields (''s1'', ''free'', (code_points ''q2'')))]"
  by (simp add: compute_keystroke_metrics_by_field_def Let_def ex_fields_keys)

lemma ex_fields_mins:
  "Min (set (map pressed_at_ms (filter (\<lambda>e. session_id e = ''s1'' \<and> test_type e = ''free''
      \<and> field_name e = Some (code_points ''q1'')) ex_fields))) = 1200"
  "Min (set (map pressed_at_ms (filter (\<lambda>e. session_id e = ''s1'' \<and> test_type e = ''free''
      \<and> field_name e = Some (code_points ''q2'')) ex_fields))) = 2500"
  "Min (set (map pressed_at_ms (filter (\<lambda>e. session_id e = ''s1'' \<and> test_type e = ''free'')
      ex_fields))) = 1000"
  "(''s1'', ''free'') \<in> test_key ` set ex_fields"
  by code_simp+

theorem first_key_latency_value_witness:
  "map (\<lambda>r. (row_field_name r, first_key_latency_ms r))
     (compute_keystroke_metrics_by_field ex_fields) = [((code_points ''q1''), 200), ((code_points ''q2''), 1500)]
   \<and> test_start_ms ex_fields (''s1'', ''free'') = Some 1000"
proof -
  note inst = first_key_latency_value [of ex_fields "''s1''" "''free''"]
  let ?r1 = "field_row_of ex_fields ''s1'' ''free'' (code_points ''q1'') (field_group ex_fields (''s1'', ''free'', (code_points ''q1'')))"
  let ?r2 = "field_row_of ex_fields ''s1'' ''free'' (code_points ''q2'') (field_group ex_fields (''s1'', ''free'', (code_points ''q2'')))"
  have "?r1 \<in> set (compute_keystroke_metrics_by_field ex_fields)"
    by (simp add: ex_fields_rows)
  with inst have "first_key_latency_ms ?r1
        = Min (set (map pressed_at_ms
            (filter (\<lambda>e. session_id e = row_session_id ?r1 \<and> test_type e = row_test_type ?r1
                          \<and> field_name e = Some (row_field_name ?r1)) ex_fields)))
          - Min (set (map pressed_at_ms
            (filter (\<lambda>e. session_id e = row_session_id ?r1 \<and> test_type e = row_test_type ?r1) ex_fields)))"
    by blast
  then have a: "first_key_latency_ms ?r1 = 200"
    unfolding field_row_counts ex_fields_mins by simp
  have "?r2 \<in> set (compute_keystroke_metrics_by_field ex_fields)"
    by (simp add: ex_fields_rows)
  with inst have "first_key_latency_ms ?r2
        = Min (set (map pressed_at_ms
            (filter (\<lambda>e. session_id e = row_session_id ?r2 \<and> test_type e = row_test_type ?r2
                          \<and> field_name e = Some (row_field_name ?r2)) ex_fields)))
          - Min (set (map pressed_at_ms
            (filter (\<lambda>e. session_id e = row_session_id ?r2 \<and> test_type e = row_test_type ?r2) ex_fields)))"
    by blast
  then have b: "first_key_latency_ms ?r2 = 1500"
    unfolding field_row_counts ex_fields_mins by simp
  have "test_start_ms ex_fields (''s1'', ''free'')
       = (if (''s1'', ''free'') \<in> test_key ` set ex_fields
          then Some (Min (set (map pressed_at_ms
                  (filter (\<lambda>e. session_id e = ''s1'' \<and> test_type e = ''free'') ex_fields))))
          else None)"
    using inst by blast
  then have c: "test_start_ms ex_fields (''s1'', ''free'') = Some 1000"
    unfolding ex_fields_mins(3) using ex_fields_mins(4) by simp
  show ?thesis
    using a b c by (simp add: ex_fields_rows)
qed

theorem first_key_latency_nonneg_witness:
  "compute_keystroke_metrics_by_field ex_fields \<noteq> []
   \<and> list_all (\<lambda>r. 0 \<le> first_key_latency_ms r) (compute_keystroke_metrics_by_field ex_fields)"
  using first_key_latency_nonneg [of ex_fields] by (simp add: ex_fields_rows list_all_iff)

section \<open>The per-field pass and the field names\<close>

subsection \<open>Trimming\<close>

lemma dropWhile_all_iff:
  "(\<forall>c\<in>set (dropWhile P xs). P c) \<longleftrightarrow> (\<forall>c\<in>set xs. P c)"
proof
  assume a: "\<forall>c\<in>set (dropWhile P xs). P c"
  have "dropWhile P xs = []"
  proof (rule ccontr)
    assume ne: "dropWhile P xs \<noteq> []"
    then have "\<not> P (hd (dropWhile P xs))" by (rule hd_dropWhile)
    moreover from ne have "hd (dropWhile P xs) \<in> set (dropWhile P xs)" by simp
    ultimately show False using a by blast
  qed
  then show "\<forall>c\<in>set xs. P c" by (simp add: dropWhile_eq_Nil_conv)
next
  assume "\<forall>c\<in>set xs. P c"
  then show "\<forall>c\<in>set (dropWhile P xs). P c"
    by (meson set_dropWhileD)
qed

lemma py_strip_empty_iff: "py_strip f = [] \<longleftrightarrow> (\<forall>c\<in>set f. is_py_space c)"
proof -
  have "py_strip f = [] \<longleftrightarrow> (\<forall>c\<in>set (rev (dropWhile is_py_space f)). is_py_space c)"
    by (simp add: py_strip_def dropWhile_eq_Nil_conv)
  also have "\<dots> \<longleftrightarrow> (\<forall>c\<in>set (dropWhile is_py_space f). is_py_space c)"
    by simp
  also have "\<dots> \<longleftrightarrow> (\<forall>c\<in>set f. is_py_space c)"
    by (rule dropWhile_all_iff)
  finally show ?thesis .
qed

subsection \<open>The groups that get a row\<close>

lemma field_group_nonempty:
  assumes "k \<in> set (groupby_field_keys df)"
  shows "field_group df k \<noteq> []"
proof -
  obtain sid tt field where k: "k = (sid, tt, field)" by (cases k)
  from assms obtain e where "e \<in> set df" "session_id e = sid" "test_type e = tt"
    "field_name e = Some field"
    unfolding k by (rule field_key_in_group)
  then have "e \<in> set (field_group df k)"
    by (simp add: field_group_def k)
  then show ?thesis by (metis empty_iff empty_set)
qed

lemma row_key_field_row [simp]: "row_key (field_row_of df sid tt field grp) = (sid, tt, field)"
  by (simp add: row_key_def)

lemma field_row_keys_aux:
  assumes "\<forall>k\<in>set ks. field_group df k \<noteq> []"
  shows "map row_key (concat (map (\<lambda>(sid, tt, field).
        let grp = field_group df (sid, tt, field)
        in if py_strip field = [] then []
           else if length grp = 0 then []
           else [field_row_of df sid tt field grp]) ks))
     = filter (\<lambda>(sid, tt, field). py_strip field \<noteq> []) ks"
  using assms
proof (induction ks)
  case Nil
  then show ?case by simp
next
  case (Cons k ks)
  obtain sid tt field where k: "k = (sid, tt, field)" by (cases k)
  from Cons.prems have "field_group df (sid, tt, field) \<noteq> []" by (simp add: k)
  with Cons show ?case by (simp add: k Let_def)
qed

lemma field_row_keys:
  "map row_key (compute_keystroke_metrics_by_field df)
     = filter (\<lambda>(sid, tt, field). py_strip field \<noteq> []) (groupby_field_keys df)"
  unfolding compute_keystroke_metrics_by_field_def
  by (rule field_row_keys_aux) (simp add: field_group_nonempty)

lemma groupby_field_keys_mem:
  "(sid, tt, field) \<in> set (groupby_field_keys df)
     \<longleftrightarrow> (\<exists>e\<in>set df. session_id e = sid \<and> test_type e = tt \<and> field_name e = Some field)"
  unfolding set_groupby_field_keys field_key_def by force

lemma distinct_groupby_field_keys: "distinct (groupby_field_keys df)"
  by (simp add: groupby_field_keys_def)

subsection \<open>The per-test and per-session passes do not read the field name\<close>

lemma relabel_nth:
  "i < length grp \<Longrightarrow> relabel_fields g grp ! i = (grp ! i)\<lparr>field_name := g (grp ! i)\<rparr>"
  by (simp add: relabel_fields_def)

lemma length_relabel [simp]: "length (relabel_fields g grp) = length grp"
  by (simp add: relabel_fields_def)

lemma pressed_at_ms_relabel [simp]: "pressed_at_ms (e\<lparr>field_name := x\<rparr>) = pressed_at_ms e"
  by (simp add: pressed_at_ms_def)

lemma khd_scan_relabel:
  "khd_scan (relabel_fields g grp) k t j = khd_scan grp k t j"
proof (induction "length grp - j" arbitrary: j)
  case 0
  then show ?case by (simp add: khd_scan.simps)
next
  case (Suc d)
  then have j: "j < length grp" and d: "d = length grp - Suc j" by simp_all
  have ih: "khd_scan (relabel_fields g grp) k t (Suc j) = khd_scan grp k t (Suc j)"
    by (rule Suc.hyps(1) [OF d])
  show ?case
    by (simp add: khd_scan.simps [of "relabel_fields g grp" k t j] khd_scan.simps [of grp k t j]
        j relabel_nth ih)
qed

lemma khd_loop_relabel:
  "khd_loop (relabel_fields g grp) i = khd_loop grp i"
proof (induction "length grp - i" arbitrary: i)
  case 0
  then show ?case by (simp add: khd_loop.simps)
next
  case (Suc d)
  then have i: "i < length grp" and d: "d = length grp - Suc i" by simp_all
  have ih: "khd_loop (relabel_fields g grp) (Suc i) = khd_loop grp (Suc i)"
    by (rule Suc.hyps(1) [OF d])
  show ?case
    by (simp add: khd_loop.simps [of "relabel_fields g grp" i] khd_loop.simps [of grp i]
        i relabel_nth ih khd_scan_relabel)
qed

lemma iki_loop_relabel:
  "iki_loop (relabel_fields g grp) i l = iki_loop grp i l"
proof (induction "length grp - i" arbitrary: i l)
  case 0
  then show ?case by (simp add: iki_loop.simps)
next
  case (Suc d)
  then have i: "i < length grp" and d: "d = length grp - Suc i" by simp_all
  have ih: "iki_loop (relabel_fields g grp) (Suc i) l' = iki_loop grp (Suc i) l'" for l'
    by (rule Suc.hyps(1) [OF d])
  show ?case
    by (cases l; simp add: iki_loop.simps [of "relabel_fields g grp" i] iki_loop.simps [of grp i]
        i relabel_nth ih)
qed

lemma pairs_relabel [simp]:
  "khd_pairs (relabel_fields g grp) = khd_pairs grp"
  "khd_vals (relabel_fields g grp) = khd_vals grp"
  "iki_vals (relabel_fields g grp) = iki_vals grp"
  by (simp_all add: khd_pairs_def khd_vals_def iki_vals_def khd_loop_relabel iki_loop_relabel)

lemma insort_key_map_commute:
  assumes "\<And>x. f (u x) = f x"
  shows "insort_key f (u x) (map u xs) = map u (insort_key f x xs)"
  by (induction xs) (simp_all add: assms)

lemma sort_key_map_commute:
  assumes "\<And>x. f (u x) = f x"
  shows "sort_key f (map u xs) = map u (sort_key f xs)"
  by (induction xs) (simp_all add: insort_key_map_commute assms)

lemma sort_relabel [simp]:
  "sort_values_pressed_at (relabel_fields g grp) = relabel_fields g (sort_values_pressed_at grp)"
  "sort_values_df (relabel_fields g df) = relabel_fields g (sort_values_df df)"
  unfolding sort_values_pressed_at_def sort_values_df_def relabel_fields_def
  by (rule sort_key_map_commute; simp)+

lemma test_key_relabel [simp]: "test_key (e\<lparr>field_name := x\<rparr>) = test_key e"
  by (simp add: test_key_def)

lemma groups_relabel [simp]:
  "groupby_test_keys (relabel_fields g df) = groupby_test_keys df"
  "test_group (relabel_fields g df) k = relabel_fields g (test_group df k)"
  "map session_id (relabel_fields g df) = map session_id df"
  "filter (\<lambda>e. session_id e = sid) (relabel_fields g df)
     = relabel_fields g (filter (\<lambda>e. session_id e = sid) df)"
  by (simp_all add: groupby_test_keys_def test_group_def relabel_fields_def
      filter_map comp_def)

lemma agg_row_relabel [simp]:
  "agg_row sid tt (relabel_fields g grp) khd_s iki_s = agg_row sid tt grp khd_s iki_s"
  by (simp add: agg_row_def count_keydowns_def count_backspace_def duration_ms_def
      relabel_fields_def filter_map comp_def)

lemma tables_relabel [simp]:
  "khd_df (relabel_fields g df) = khd_df df"
  "iki_df (relabel_fields g df) = iki_df df"
  by (simp_all add: khd_df_def iki_df_def)

lemma metrics_relabel:
  "compute_keystroke_metrics (relabel_fields g df) = compute_keystroke_metrics df"
  by (simp add: compute_keystroke_metrics_def per_test_rows_def overall_rows_def
      session_group_def Let_def)

text \<open>
  C7. The per-field table has exactly one row for each group (session, test, field name)
  that some event carries and whose field name is not empty after trimming; a field name
  trims to the empty string exactly when all its characters are whitespace (the
  whitespace of Python: the code points listed in the statement), so a whitespace-only
  field name gets no row, and an event without a field name belongs to no group. The
  per-test and per-session rows do not depend on the field names: the metrics table is
  the same whatever the field name of each event is. Both functions are total: the
  exclusion is not an error.
\<close>

theorem per_field_exclusion:
  "map row_key (compute_keystroke_metrics_by_field df)
     = filter (\<lambda>(sid, tt, field). py_strip field \<noteq> []) (groupby_field_keys df)
   \<and> distinct (map row_key (compute_keystroke_metrics_by_field df))
   \<and> ((sid, tt, field) \<in> set (map row_key (compute_keystroke_metrics_by_field df))
        \<longleftrightarrow> (\<exists>e\<in>set df. session_id e = sid \<and> test_type e = tt \<and> field_name e = Some field)
            \<and> py_strip field \<noteq> [])
   \<and> (py_strip field = [] \<longleftrightarrow> (\<forall>c\<in>set field. is_py_space c))
   \<and> (is_py_space c \<longleftrightarrow>
        c \<in> {9..13} \<union> {28..32} \<union> {133, 160, 5760} \<union> {8192..8202}
            \<union> {8232, 8233, 8239, 8287, 12288})
   \<and> compute_keystroke_metrics (relabel_fields g df) = compute_keystroke_metrics df"
proof (intro conjI)
  show "is_py_space c \<longleftrightarrow>
        c \<in> {9..13} \<union> {28..32} \<union> {133, 160, 5760} \<union> {8192..8202}
            \<union> {8232, 8233, 8239, 8287, 12288}"
    by (auto simp: is_py_space_def)
  show "map row_key (compute_keystroke_metrics_by_field df)
     = filter (\<lambda>(sid, tt, field). py_strip field \<noteq> []) (groupby_field_keys df)"
    by (rule field_row_keys)
  show "distinct (map row_key (compute_keystroke_metrics_by_field df))"
    unfolding field_row_keys by (rule distinct_filter [OF distinct_groupby_field_keys])
  show "(sid, tt, field) \<in> set (map row_key (compute_keystroke_metrics_by_field df))
        \<longleftrightarrow> (\<exists>e\<in>set df. session_id e = sid \<and> test_type e = tt \<and> field_name e = Some field)
            \<and> py_strip field \<noteq> []"
    unfolding field_row_keys using groupby_field_keys_mem [of sid tt field df] by simp
  show "py_strip field = [] \<longleftrightarrow> (\<forall>c\<in>set field. is_py_space c)"
    by (rule py_strip_empty_iff)
  show "compute_keystroke_metrics (relabel_fields g df) = compute_keystroke_metrics df"
    by (rule metrics_relabel)
qed

lemma ex_fields_test_keys:
  "groupby_test_keys (sort_values_df ex_fields) = [(''s1'', ''free'')]"
  "pd_unique (map session_id (sort_values_df ex_fields)) = [''s1'']"
  "length (test_group (sort_values_df ex_fields) (''s1'', ''free'')) = 6"
  "length (session_group (sort_values_df ex_fields) ''s1'') = 6"
  by code_simp+

lemma py_strip_unicode:
  "py_strip [160] = []"
  "py_strip [133, 32] = []"
  "py_strip [8195, 12288, 5760] = []"
  "py_strip [160, 113, 8203, 32] = [113, 8203]"
  by (simp_all add: py_strip_def is_py_space_def)

lemma ex_nbsp_keys:
  "groupby_field_keys ex_nbsp
     = [(''s1'', ''free'', code_points ''q1''), (''s1'', ''free'', [133, 32]),
        (''s1'', ''free'', [160])]"
  by code_simp

theorem per_field_exclusion_witness:
  "map row_key (compute_keystroke_metrics_by_field ex_fields)
     = [(''s1'', ''free'', (code_points ''q1'')), (''s1'', ''free'', (code_points ''q2''))]
   \<and> (''s1'', ''free'', (code_points ''  '')) \<in> set (groupby_field_keys ex_fields)
   \<and> (''s1'', ''free'', (code_points ''  '')) \<notin> set (map row_key (compute_keystroke_metrics_by_field ex_fields))
   \<and> py_strip (code_points ''  '') = []
   \<and> map n_events (compute_keystroke_metrics ex_fields) = [6, 6]
   \<and> compute_keystroke_metrics (relabel_fields (\<lambda>e. None) ex_fields)
       = compute_keystroke_metrics ex_fields
   \<and> groupby_field_keys ex_nbsp
       = [(''s1'', ''free'', code_points ''q1''), (''s1'', ''free'', [133, 32]),
          (''s1'', ''free'', [160])]
   \<and> map row_key (compute_keystroke_metrics_by_field ex_nbsp)
       = [(''s1'', ''free'', code_points ''q1'')]
   \<and> py_strip [160] = [] \<and> py_strip [133, 32] = [] \<and> py_strip [8195, 12288, 5760] = []
   \<and> py_strip [160, 113, 8203, 32] = [113, 8203]"
proof -
  note inst = per_field_exclusion [of ex_fields "''s1''" "''free''" "(code_points ''  '')" _ "\<lambda>e. None"]
  note inst2 = per_field_exclusion [of ex_nbsp "''s1''" "''free''" "[160]" _ "\<lambda>e. None"]
  have f: "map row_key (compute_keystroke_metrics_by_field ex_nbsp)
     = filter (\<lambda>(sid, tt, field). py_strip field \<noteq> []) (groupby_field_keys ex_nbsp)"
    using inst2 by blast
  have g: "map row_key (compute_keystroke_metrics_by_field ex_nbsp)
       = [(''s1'', ''free'', code_points ''q1'')]"
    unfolding f by (simp add: ex_nbsp_keys py_strip_unicode)
  have a: "map row_key (compute_keystroke_metrics_by_field ex_fields)
     = filter (\<lambda>(sid, tt, field). py_strip field \<noteq> []) (groupby_field_keys ex_fields)"
    using inst by blast
  have b: "map row_key (compute_keystroke_metrics_by_field ex_fields)
     = [(''s1'', ''free'', (code_points ''q1'')), (''s1'', ''free'', (code_points ''q2''))]"
    unfolding a by (simp add: ex_fields_keys)
  have c: "(''s1'', ''free'', (code_points ''  '')) \<in> set (groupby_field_keys ex_fields)"
    by (simp add: ex_fields_keys)
  have d: "map n_events (compute_keystroke_metrics ex_fields) = [6, 6]"
    by (simp add: compute_keystroke_metrics_def per_test_rows_def overall_rows_def Let_def
        ex_fields_test_keys)
  have e: "compute_keystroke_metrics (relabel_fields (\<lambda>e. None) ex_fields)
       = compute_keystroke_metrics ex_fields"
    using inst by blast
  show ?thesis
    unfolding b g using c d e ex_nbsp_keys py_strip_unicode by simp
qed

section \<open>Standard deviations of the two tables\<close>
















end
